theory Spec2Isabelle
  imports Main
begin

section \<open>Python values used by mplWindow\<close>

text \<open>
  The exceptions that the modelled code can raise.  A function of the source that can
  raise returns \<open>exn + 'a\<close> (\<open>Inl\<close> the exception), or carries an \<open>exn option\<close>
  beside the state it leaves behind.
\<close>

datatype exn = AssertionError | IndexError | TypeError | AttributeError | ValueError
  | RuntimeError

definition bnd :: "exn + 'a \<Rightarrow> ('a \<Rightarrow> exn + 'b) \<Rightarrow> exn + 'b" where
  "bnd m f = (case m of Inl e \<Rightarrow> Inl e | Inr x \<Rightarrow> f x)"

text \<open>
  A Python sequence is either a (mutable) list or an (immutable) tuple; the source tests
  \<open>isinstance(_, list)\<close> and \<open>isinstance(_, tuple)\<close> separately.
\<close>

datatype 'a pyseq = PyList (items: "'a list") | PyTuple (items: "'a list")

text \<open>\<open>s[i]\<close> for a non-negative index.\<close>

definition seq_get :: "'a pyseq \<Rightarrow> nat \<Rightarrow> exn + 'a" where
  "seq_get s i = (if i < length (items s) then Inr (items s ! i) else Inl IndexError)"

text \<open>\<open>s[i] = v\<close>: a tuple does not support item assignment.\<close>

fun seq_set :: "'a pyseq \<Rightarrow> nat \<Rightarrow> 'a \<Rightarrow> exn + 'a pyseq" where
  "seq_set (PyTuple xs) i v = Inl TypeError"
| "seq_set (PyList xs) i v =
     (if i < length xs then Inr (PyList (xs[i := v])) else Inl IndexError)"

text \<open>\<open>str(n)\<close> for a non-negative integer: its decimal digits.\<close>

definition digit_char :: "nat \<Rightarrow> char" where
  "digit_char d = ''0123456789'' ! d"

fun str_nat :: "nat \<Rightarrow> string" where
  "str_nat n = (if n < 10 then [digit_char n] else str_nat (n div 10) @ [digit_char (n mod 10)])"

declare str_nat.simps [simp del]

section \<open>The modal dialogs\<close>

text \<open>
  The state of a Tk top-level window as far as the dialogs change it: shown, withdrawn
  (\<open>withdraw()\<close>) or destroyed (\<open>destroy()\<close>).
\<close>

datatype window = Shown | Withdrawn | Destroyed

text \<open>
  The builtin \<open>float(s)\<close> is a parameter \<open>pyfloat\<close> of the dialog operations: it
  returns \<open>None\<close> where Python raises \<open>ValueError\<close>.  The comparison \<open>b > a\<close> of two
  floats is the parameter \<open>gt\<close>.
\<close>

subsection \<open>textPrompt\<close>

text \<open>
  \<open>tp_fontVar\<close> is \<open>None\<close> when the attribute \<open>fontVar\<close> does not exist
  (\<open>__create_widgets__\<close> creates it only if \<open>getFontSize\<close>).  \<open>tp_parent\<close> says
  whether \<open>parent\<close> is not \<open>None\<close>, \<open>tp_parent_focus\<close> whether \<open>parent.focus_set()\<close>
  has been called, \<open>tp_stdout\<close> is what has been printed.
\<close>

record 'f textPrompt =
  tp_parent :: bool
  tp_parent_focus :: bool
  tp_result :: "(string \<times> 'f option) option"
  tp_getFontSize :: bool
  tp_var :: string
  tp_fontVar :: "string option"
  tp_window :: window
  tp_stdout :: "string list"

text \<open>
  \<open>textPrompt.__init__\<close> with \<open>__create_widgets__\<close>, up to \<open>wait_window\<close>.
  \<open>initValue\<close> is given as the string \<open>str(initValue)\<close> when it is not \<open>None\<close>, and
  \<open>initFontSize\<close> likewise; the defaults are \<open>''\<close> and \<open>str(10)\<close>.
\<close>

definition textPrompt_init ::
  "bool \<Rightarrow> string option \<Rightarrow> string option \<Rightarrow> bool \<Rightarrow> 'f textPrompt" where
  "textPrompt_init parent initValue initFontSize getFontSize =
     \<lparr> tp_parent = parent, tp_parent_focus = False, tp_result = None,
       tp_getFontSize = getFontSize,
       tp_var = (case initValue of None \<Rightarrow> [] | Some s \<Rightarrow> s),
       tp_fontVar = (if getFontSize
                     then Some (case initFontSize of None \<Rightarrow> ''10'' | Some s \<Rightarrow> s)
                     else None),
       tp_window = Shown, tp_stdout = [] \<rparr>"

text \<open>\<open>__validate__\<close>: the bare \<open>except\<close> turns every exception into \<open>False\<close>.\<close>

definition tp_validate :: "(string \<Rightarrow> 'f option) \<Rightarrow> 'f textPrompt \<Rightarrow> bool" where
  "tp_validate pyfloat d =
     (if \<not> tp_getFontSize d then True
      else (case tp_fontVar d of
              None \<Rightarrow> False
            | Some s \<Rightarrow> (case pyfloat s of None \<Rightarrow> False | Some temp \<Rightarrow> True)))"

text \<open>\<open>__apply__\<close>: no handler here, so a failing \<open>float\<close> would raise.\<close>

definition tp_apply :: "(string \<Rightarrow> 'f option) \<Rightarrow> 'f textPrompt \<Rightarrow> exn + 'f textPrompt" where
  "tp_apply pyfloat d =
     (if tp_getFontSize d then
        (case tp_fontVar d of
           None \<Rightarrow> Inl AttributeError
         | Some s \<Rightarrow>
             (case pyfloat s of
                None \<Rightarrow> Inl ValueError
              | Some v \<Rightarrow> Inr (d\<lparr>tp_result := Some (tp_var d, Some v)\<rparr>)))
      else Inr (d\<lparr>tp_result := Some (tp_var d, None)\<rparr>))"

text \<open>\<open>__cancel__\<close>: also bound to Escape and to the window manager's close.\<close>

definition tp_cancel :: "'f textPrompt \<Rightarrow> 'f textPrompt" where
  "tp_cancel d =
     (let d1 = (if tp_parent d then d\<lparr>tp_parent_focus := True\<rparr> else d)
      in d1\<lparr>tp_window := Destroyed\<rparr>)"

text \<open>\<open>__ok__\<close>: the OK button and the Return key.\<close>

definition tp_ok :: "(string \<Rightarrow> 'f option) \<Rightarrow> 'f textPrompt \<Rightarrow> exn + 'f textPrompt" where
  "tp_ok pyfloat d =
     (if \<not> tp_validate pyfloat d then Inr (d\<lparr>tp_stdout := tp_stdout d @ [''not valid'']\<rparr>)
      else bnd (tp_apply pyfloat d) (\<lambda>d1. Inr (tp_cancel (d1\<lparr>tp_window := Withdrawn\<rparr>))))"

subsection \<open>limitPrompt\<close>

record 'f limitPrompt =
  lp_parent :: bool
  lp_parent_focus :: bool
  lp_result :: "('f \<times> 'f) option"
  lp_var1 :: string
  lp_var2 :: string
  lp_window :: window
  lp_stdout :: "string list"

text \<open>
  \<open>limitPrompt.__init__\<close> with \<open>__create_widgets__\<close>, up to \<open>wait_window\<close>.  The
  argument is \<open>initValue\<close> as the list of the strings \<open>str(initValue[k])\<close>; the
  assertion wants two of them.
\<close>

definition limitPrompt_init :: "bool \<Rightarrow> string list \<Rightarrow> exn + 'f limitPrompt" where
  "limitPrompt_init parent initValue =
     (if length initValue \<noteq> 2 then Inl AssertionError
      else Inr \<lparr> lp_parent = parent, lp_parent_focus = False, lp_result = None,
                 lp_var1 = initValue ! 0, lp_var2 = initValue ! 1,
                 lp_window = Shown, lp_stdout = [] \<rparr>)"

definition lp_validate ::
  "(string \<Rightarrow> 'f option) \<Rightarrow> ('f \<Rightarrow> 'f \<Rightarrow> bool) \<Rightarrow> 'f limitPrompt \<Rightarrow> bool" where
  "lp_validate pyfloat gt d =
     (case pyfloat (lp_var1 d) of
        None \<Rightarrow> False
      | Some temp1 \<Rightarrow>
          (case pyfloat (lp_var2 d) of
             None \<Rightarrow> False
           | Some temp2 \<Rightarrow> gt temp2 temp1))"

definition lp_apply :: "(string \<Rightarrow> 'f option) \<Rightarrow> 'f limitPrompt \<Rightarrow> exn + 'f limitPrompt" where
  "lp_apply pyfloat d =
     (case pyfloat (lp_var1 d) of
        None \<Rightarrow> Inl ValueError
      | Some a \<Rightarrow>
          (case pyfloat (lp_var2 d) of
             None \<Rightarrow> Inl ValueError
           | Some b \<Rightarrow> Inr (d\<lparr>lp_result := Some (a, b)\<rparr>)))"

definition lp_cancel :: "'f limitPrompt \<Rightarrow> 'f limitPrompt" where
  "lp_cancel d =
     (let d1 = (if lp_parent d then d\<lparr>lp_parent_focus := True\<rparr> else d)
      in d1\<lparr>lp_window := Destroyed\<rparr>)"

definition lp_ok ::
  "(string \<Rightarrow> 'f option) \<Rightarrow> ('f \<Rightarrow> 'f \<Rightarrow> bool) \<Rightarrow> 'f limitPrompt \<Rightarrow> exn + 'f limitPrompt" where
  "lp_ok pyfloat gt d =
     (if \<not> lp_validate pyfloat gt d then Inr (d\<lparr>lp_stdout := lp_stdout d @ [''not valid'']\<rparr>)
      else bnd (lp_apply pyfloat d) (\<lambda>d1. Inr (lp_cancel (d1\<lparr>lp_window := Withdrawn\<rparr>))))"

subsection \<open>A float reader for concrete runs\<close>

text \<open>
  An instance of the parameter \<open>pyfloat\<close> for running the dialogs on concrete entries:
  it reads a non-empty string of decimal digits as the number it denotes and rejects
  every other string.  On these strings, and on strings without any digit such as
  \<open>abc\<close>, it agrees with Python's \<open>float\<close>.
\<close>

definition is_digit :: "char \<Rightarrow> bool" where
  "is_digit c = (c \<in> set ''0123456789'')"

definition digit_val :: "char \<Rightarrow> int" where
  "digit_val c = int (of_char c) - 48"

definition dec_float :: "string \<Rightarrow> int option" where
  "dec_float s =
     (if s \<noteq> [] \<and> list_all is_digit s
      then Some (foldl (\<lambda>acc c. 10 * acc + digit_val c) 0 s)
      else None)"

section \<open>numpy arrays\<close>

text \<open>
  An \<open>ndarray\<close> is its shape and its elements in row-major order.  Only the shape
  decides whether an index expression raises.
\<close>

datatype 'a ndarray = NDArray (shape: "nat list") (flat: "'a list")

text \<open>\<open>a[i]\<close>: the \<open>i\<close>-th sub-array along the first axis.\<close>

definition nd_index :: "'a ndarray \<Rightarrow> nat \<Rightarrow> exn + 'a ndarray" where
  "nd_index a i =
     (case shape a of
        [] \<Rightarrow> Inl IndexError
      | n # ns \<Rightarrow>
          if i < n
          then Inr (NDArray ns (take (prod_list ns) (drop (i * prod_list ns) (flat a))))
          else Inl IndexError)"

text \<open>
  \<open>a[i1, ..., ik, :]\<close>: integer indices followed by one full slice, which needs an axis
  of its own.
\<close>

fun nd_at :: "'a ndarray \<Rightarrow> nat list \<Rightarrow> exn + 'a ndarray" where
  "nd_at a [] = (if shape a = [] then Inl IndexError else Inr a)"
| "nd_at a (i # is) = bnd (nd_index a i) (\<lambda>b. nd_at b is)"

text \<open>\<open>shape[0]\<close> and \<open>shape[-2]\<close> of the shape tuple.\<close>

definition shape_at_0 :: "nat list \<Rightarrow> exn + nat" where
  "shape_at_0 sh = (case sh of [] \<Rightarrow> Inl IndexError | n # ns \<Rightarrow> Inr n)"

definition shape_at_m2 :: "nat list \<Rightarrow> exn + nat" where
  "shape_at_m2 sh = (if length sh < 2 then Inl IndexError else Inr (sh ! (length sh - 2)))"

section \<open>The plot window\<close>

definition TYPE_PLOT :: int where "TYPE_PLOT = 0"
definition TYPE_ERRORBAR :: int where "TYPE_ERRORBAR = 1"
definition TYPE_BAR :: int where "TYPE_BAR = 2"
definition TYPE_HISTOGRAM :: int where "TYPE_HISTOGRAM = 3"
definition TYPE_2DHISTOGRAM :: int where "TYPE_2DHISTOGRAM = 4"
definition TYPE_CONTOUR :: int where "TYPE_CONTOUR = 5"
definition TYPE_IMAGE :: int where "TYPE_IMAGE = 6"
definition TYPE_COLORMESH :: int where "TYPE_COLORMESH = 7"
definition TYPE_DATEPLOT :: int where "TYPE_DATEPLOT = 8"
definition TYPE_VECTOR :: int where "TYPE_VECTOR = 9"

text \<open>
  The calls that the window issues to matplotlib and Tk, in the order it issues them.
  \<open>'f\<close> is the type of numbers.  The keyword arguments \<open>**kwargs\<close> that are passed
  through to the plot commands are a list of keys with their values, of type \<open>'k\<close>.  A
  drawing call carries its data arguments, its format string if one is passed, its label
  and the keyword arguments.
\<close>

datatype ('f, 'k) call =
    Ax_clear
  | Ax_plot "'f ndarray" "'f ndarray" "string option" string "(string \<times> 'k) list"
  | Ax_errorbar "'f ndarray" "'f ndarray" "string option" string "(string \<times> 'k) list"
  | Ax_bar "'f ndarray" "'f ndarray" string "(string \<times> 'k) list"
  | Ax_hist "'f ndarray" string "(string \<times> 'k) list"
  | Ax_set_xlim 'f 'f
  | Ax_set_ylim 'f 'f
  | Ax_set_xscale string
  | Ax_set_yscale string
  | Ax_set_xlabel string 'f
  | Ax_set_ylabel string 'f
  | Ax_set_title string 'f
  | Ax_legend int int
  | Fig_tight_layout
  | Toolbar_create
  | Canvas_pack
  | Toolbar_update
  | Toolbar_destroy
  | Canvas_draw
  | Toplevel_create
  | Wm_title string
  | Frame_pack
  | Figure_create
  | Canvas_create
  | PlotType_radiobutton string int bool
  | Relabel_add_command string
  | Relabel_entryconfig nat string
  | Config_menu
  | Bind_events

text \<open>
  The fields of a \<open>Plot\<close> object.  The Tk variables are their values.  \<open>xlim\<close> and
  \<open>ylim\<close> are \<open>None\<close> or the pair of their first two items.  \<open>toolbar\<close> says whether
  \<open>self.toolbar\<close> is not \<open>None\<close>.
\<close>

record ('f, 'k) plotwin =
  kwargs :: "(string \<times> 'k) list"
  data :: "'f ndarray"
  fmt :: "string pyseq option"
  labels :: "string pyseq"
  xlabel :: "string option"
  ylabel :: "string option"
  xlabelSize :: 'f
  ylabelSize :: 'f
  title :: "string option"
  titleSize :: 'f
  xlim :: "('f \<times> 'f) option"
  ylim :: "('f \<times> 'f) option"
  logX :: bool
  logY :: bool
  legend :: bool
  legendLoc :: int
  legendFontSize :: int
  plotTypeVar :: int
  showToolbar :: bool
  toolbar :: bool

subsection \<open>The drawing calls of \<open>__plot__\<close>\<close>

text \<open>
  A drawing call is made in two steps.  First its argument expressions are evaluated,
  in the order of the source, and the keyword arguments are put together: a key of
  \<open>**kwargs\<close> that the call also passes by name (\<open>label\<close>, and \<open>fmt\<close> in
  \<open>ax.errorbar(..., fmt=...)\<close>) raises \<open>TypeError\<close>.  Then matplotlib runs the call:
  the parameter \<open>lib\<close> says what it does, \<open>None\<close> when the call returns and \<open>Some e\<close>
  when it raises \<open>e\<close>.  The drawing calls and the layout fit (the parameter \<open>lay\<close>
  below) are the library calls that may raise here; every other call to matplotlib and
  Tk is taken to return.
\<close>

definition call_kw :: "string list \<Rightarrow> (string \<times> 'k) list \<Rightarrow> 'c \<Rightarrow> exn + 'c" where
  "call_kw named kw c =
     (if list_ex (\<lambda>k. k \<in> set (map fst kw)) named then Inl TypeError else Inr c)"

text \<open>One call, and the loop \<open>for i in range(n)\<close> that stops at the first exception.\<close>

definition draw_one :: "('c \<Rightarrow> exn option) \<Rightarrow> exn + 'c \<Rightarrow> 'c list \<times> exn option" where
  "draw_one lib r = (case r of Inl e \<Rightarrow> ([], Some e) | Inr c \<Rightarrow> ([c], lib c))"

fun draw_loop ::
  "('c \<Rightarrow> exn option) \<Rightarrow> (nat \<Rightarrow> exn + 'c) \<Rightarrow> nat list \<Rightarrow> 'c list \<times> exn option" where
  "draw_loop lib f [] = ([], None)"
| "draw_loop lib f (i # is) =
     (case f i of
        Inl e \<Rightarrow> ([], Some e)
      | Inr c \<Rightarrow>
          (case lib c of
             Some e \<Rightarrow> ([c], Some e)
           | None \<Rightarrow> (case draw_loop lib f is of (cs, ex) \<Rightarrow> (c # cs, ex))))"

definition range_loop ::
  "('c \<Rightarrow> exn option) \<Rightarrow> (nat \<Rightarrow> exn + 'c) \<Rightarrow> nat list \<Rightarrow> 'c list \<times> exn option" where
  "range_loop lib f sh =
     (case shape_at_0 sh of Inl e \<Rightarrow> ([], Some e) | Inr n \<Rightarrow> draw_loop lib f [0..<n])"

text \<open>Lines 184/186 and 192/194: \<open>ax.plot\<close>.\<close>

definition plot_single :: "('f, 'k) plotwin \<Rightarrow> exn + ('f, 'k) call" where
  "plot_single w =
     (case fmt w of
        Some f \<Rightarrow>
          bnd (nd_at (data w) [0]) (\<lambda>x. bnd (nd_at (data w) [1]) (\<lambda>y.
          bnd (seq_get f 0) (\<lambda>s. bnd (seq_get (labels w) 0) (\<lambda>l.
          call_kw [''label''] (kwargs w) (Ax_plot x y (Some s) l (kwargs w))))))
      | None \<Rightarrow>
          bnd (nd_at (data w) [0]) (\<lambda>x. bnd (nd_at (data w) [1]) (\<lambda>y.
          bnd (seq_get (labels w) 0) (\<lambda>l.
          call_kw [''label''] (kwargs w) (Ax_plot x y None l (kwargs w))))))"

definition plot_series :: "('f, 'k) plotwin \<Rightarrow> nat \<Rightarrow> exn + ('f, 'k) call" where
  "plot_series w i =
     (case fmt w of
        Some f \<Rightarrow>
          bnd (nd_at (data w) [i, 0]) (\<lambda>x. bnd (nd_at (data w) [i, 1]) (\<lambda>y.
          bnd (seq_get f i) (\<lambda>s. bnd (seq_get (labels w) i) (\<lambda>l.
          call_kw [''label''] (kwargs w) (Ax_plot x y (Some s) l (kwargs w))))))
      | None \<Rightarrow>
          bnd (nd_at (data w) [i, 0]) (\<lambda>x. bnd (nd_at (data w) [i, 1]) (\<lambda>y.
          bnd (seq_get (labels w) i) (\<lambda>l.
          call_kw [''label''] (kwargs w) (Ax_plot x y None l (kwargs w))))))"

text \<open>
  Lines 202/204 and 210/212: \<open>ax.errorbar\<close>.  In the loop, the call with a format
  string (line 210) reads \<open>data[0,:]\<close> and \<open>data[1,:]\<close>; the call without one
  (line 212) reads \<open>data[i,0,:]\<close> and \<open>data[i,1,:]\<close>.  The format string is passed
  by name.
\<close>

definition errorbar_single :: "('f, 'k) plotwin \<Rightarrow> exn + ('f, 'k) call" where
  "errorbar_single w =
     (case fmt w of
        Some f \<Rightarrow>
          bnd (nd_at (data w) [0]) (\<lambda>x. bnd (nd_at (data w) [1]) (\<lambda>y.
          bnd (seq_get f 0) (\<lambda>s. bnd (seq_get (labels w) 0) (\<lambda>l.
          call_kw [''fmt'', ''label''] (kwargs w) (Ax_errorbar x y (Some s) l (kwargs w))))))
      | None \<Rightarrow>
          bnd (nd_at (data w) [0]) (\<lambda>x. bnd (nd_at (data w) [1]) (\<lambda>y.
          bnd (seq_get (labels w) 0) (\<lambda>l.
          call_kw [''label''] (kwargs w) (Ax_errorbar x y None l (kwargs w))))))"

definition errorbar_series :: "('f, 'k) plotwin \<Rightarrow> nat \<Rightarrow> exn + ('f, 'k) call" where
  "errorbar_series w i =
     (case fmt w of
        Some f \<Rightarrow>
          bnd (nd_at (data w) [0]) (\<lambda>x. bnd (nd_at (data w) [1]) (\<lambda>y.
          bnd (seq_get f i) (\<lambda>s. bnd (seq_get (labels w) i) (\<lambda>l.
          call_kw [''fmt'', ''label''] (kwargs w) (Ax_errorbar x y (Some s) l (kwargs w))))))
      | None \<Rightarrow>
          bnd (nd_at (data w) [i, 0]) (\<lambda>x. bnd (nd_at (data w) [i, 1]) (\<lambda>y.
          bnd (seq_get (labels w) i) (\<lambda>l.
          call_kw [''label''] (kwargs w) (Ax_errorbar x y None l (kwargs w))))))"

text \<open>Lines 219 and 224: \<open>ax.bar\<close>, which takes no format string.\<close>

definition bar_single :: "('f, 'k) plotwin \<Rightarrow> exn + ('f, 'k) call" where
  "bar_single w =
     bnd (nd_at (data w) [0]) (\<lambda>x. bnd (nd_at (data w) [1]) (\<lambda>y.
     bnd (seq_get (labels w) 0) (\<lambda>l.
     call_kw [''label''] (kwargs w) (Ax_bar x y l (kwargs w)))))"

definition bar_series :: "('f, 'k) plotwin \<Rightarrow> nat \<Rightarrow> exn + ('f, 'k) call" where
  "bar_series w i =
     bnd (nd_at (data w) [i, 0]) (\<lambda>x. bnd (nd_at (data w) [i, 1]) (\<lambda>y.
     bnd (seq_get (labels w) i) (\<lambda>l.
     call_kw [''label''] (kwargs w) (Ax_bar x y l (kwargs w)))))"

text \<open>Lines 229 and 235: \<open>ax.hist\<close>.\<close>

definition hist_single :: "('f, 'k) plotwin \<Rightarrow> exn + ('f, 'k) call" where
  "hist_single w =
     bnd (seq_get (labels w) 0) (\<lambda>l.
     call_kw [''label''] (kwargs w) (Ax_hist (data w) l (kwargs w)))"

definition hist_series :: "('f, 'k) plotwin \<Rightarrow> nat \<Rightarrow> exn + ('f, 'k) call" where
  "hist_series w i =
     bnd (nd_at (data w) [i]) (\<lambda>x.
     bnd (seq_get (labels w) i) (\<lambda>l.
     call_kw [''label''] (kwargs w) (Ax_hist x l (kwargs w))))"

text \<open>
  The shape check and the one-series/many-series split shared by the three types that
  draw \<open>y\<close> against \<open>x\<close>: \<open>assert self.data.shape[-2] == 2\<close>, then
  \<open>if len(self.data.shape) == 2\<close>.
\<close>

definition draw_xy ::
  "('c \<Rightarrow> exn option) \<Rightarrow> nat list \<Rightarrow> (exn + 'c) \<Rightarrow> (nat \<Rightarrow> exn + 'c) \<Rightarrow>
   'c list \<times> exn option" where
  "draw_xy lib sh single series =
     (case shape_at_m2 sh of
        Inl e \<Rightarrow> ([], Some e)
      | Inr n \<Rightarrow>
          if n \<noteq> 2 then ([], Some AssertionError)
          else if length sh = 2 then draw_one lib single
          else range_loop lib series sh)"

text \<open>
  The dispatch on the plot type, lines 176 to 242: the drawing calls made, the last of
  them the one that raised if matplotlib raised, and the exception if any.
\<close>

definition draw ::
  "(('f, 'k) call \<Rightarrow> exn option) \<Rightarrow> ('f, 'k) plotwin \<Rightarrow> ('f, 'k) call list \<times> exn option" where
  "draw lib w =
     (let plotType = plotTypeVar w; sh = shape (data w) in
      if plotType = TYPE_PLOT then draw_xy lib sh (plot_single w) (plot_series w)
      else if plotType = TYPE_ERRORBAR
        then draw_xy lib sh (errorbar_single w) (errorbar_series w)
      else if plotType = TYPE_BAR then draw_xy lib sh (bar_single w) (bar_series w)
      else if plotType = TYPE_HISTOGRAM then
        (if length sh = 1 then draw_one lib (hist_single w)
         else if length sh \<noteq> 2 then ([], Some AssertionError)
         else range_loop lib (hist_series w) sh)
      else ([], None))"

text \<open>The library in which every drawing call returns.\<close>

definition all_return :: "('f, 'k) call \<Rightarrow> exn option" where
  "all_return c = None"

subsection \<open>The common part of \<open>__plot__\<close>\<close>

definition limit_calls :: "('f, 'k) plotwin \<Rightarrow> ('f, 'k) call list" where
  "limit_calls w =
     (case xlim w of None \<Rightarrow> [] | Some (lo, hi) \<Rightarrow> [Ax_set_xlim lo hi]) @
     (case ylim w of None \<Rightarrow> [] | Some (lo, hi) \<Rightarrow> [Ax_set_ylim lo hi])"

definition scale_calls :: "('f, 'k) plotwin \<Rightarrow> ('f, 'k) call list" where
  "scale_calls w =
     [if logX w then Ax_set_xscale ''log'' else Ax_set_xscale ''linear'',
      if logY w then Ax_set_yscale ''log'' else Ax_set_yscale ''linear'']"

definition text_call :: "string option \<Rightarrow> (string \<Rightarrow> 'c) \<Rightarrow> 'c list" where
  "text_call t mk = (case t of None \<Rightarrow> [] | Some s \<Rightarrow> if s \<noteq> [] then [mk s] else [])"

definition label_calls :: "('f, 'k) plotwin \<Rightarrow> ('f, 'k) call list" where
  "label_calls w =
     text_call (xlabel w) (\<lambda>s. Ax_set_xlabel s (xlabelSize w)) @
     text_call (ylabel w) (\<lambda>s. Ax_set_ylabel s (ylabelSize w)) @
     text_call (title w) (\<lambda>s. Ax_set_title s (titleSize w))"

definition legend_calls :: "('f, 'k) plotwin \<Rightarrow> ('f, 'k) call list" where
  "legend_calls w = (if legend w then [Ax_legend (legendLoc w) (legendFontSize w)] else [])"

text \<open>
  Lines 271 to 283.  \<open>lay\<close> is what \<open>self.fig.tight_layout()\<close> does when it is called:
  \<open>None\<close> when it returns, \<open>Some e\<close> when it raises \<open>e\<close>.  Nothing catches it here.
\<close>

definition finish ::
  "exn option \<Rightarrow> ('f, 'k) plotwin \<Rightarrow> ('f, 'k) call list \<times> exn option \<times> ('f, 'k) plotwin" where
  "finish lay w =
     (case lay of
        Some e \<Rightarrow> ([Fig_tight_layout], Some e, w)
      | None \<Rightarrow>
          if showToolbar w
          then ([Fig_tight_layout, Toolbar_create, Canvas_pack, Toolbar_update, Canvas_draw],
                None, w\<lparr>toolbar := True\<rparr>)
          else ([Fig_tight_layout] @ (if toolbar w then [Toolbar_destroy] else []) @
                [Canvas_draw], None, w))"

text \<open>
  \<open>__plot__\<close>: the calls it issues, the exception it raises if any, and the window
  afterwards.
\<close>

definition plot ::
  "exn option \<Rightarrow> (('f, 'k) call \<Rightarrow> exn option) \<Rightarrow> ('f, 'k) plotwin \<Rightarrow>
   ('f, 'k) call list \<times> exn option \<times> ('f, 'k) plotwin" where
  "plot lay lib w =
     (case draw lib w of
        (cs, Some e) \<Rightarrow> (Ax_clear # cs, Some e, w)
      | (cs, None) \<Rightarrow>
          (case finish lay w of
             (fs, ex, w') \<Rightarrow>
               (Ax_clear # cs @ limit_calls w @ scale_calls w @ label_calls w @
                legend_calls w @ fs, ex, w')))"

subsection \<open>Menu actions and events\<close>

text \<open>
  The check buttons and radio buttons write a Tk variable, and the trace on the variable
  calls \<open>__plot__\<close>.
\<close>

definition toggle_logX ::
  "exn option \<Rightarrow> (('f, 'k) call \<Rightarrow> exn option) \<Rightarrow> ('f, 'k) plotwin \<Rightarrow>
   ('f, 'k) call list \<times> exn option \<times> ('f, 'k) plotwin" where
  "toggle_logX lay lib w = plot lay lib (w\<lparr>logX := \<not> logX w\<rparr>)"

definition toggle_logY ::
  "exn option \<Rightarrow> (('f, 'k) call \<Rightarrow> exn option) \<Rightarrow> ('f, 'k) plotwin \<Rightarrow>
   ('f, 'k) call list \<times> exn option \<times> ('f, 'k) plotwin" where
  "toggle_logY lay lib w = plot lay lib (w\<lparr>logY := \<not> logY w\<rparr>)"

definition select_plotType ::
  "exn option \<Rightarrow> (('f, 'k) call \<Rightarrow> exn option) \<Rightarrow> int \<Rightarrow> ('f, 'k) plotwin \<Rightarrow>
   ('f, 'k) call list \<times> exn option \<times> ('f, 'k) plotwin" where
  "select_plotType lay lib t w = plot lay lib (w\<lparr>plotTypeVar := t\<rparr>)"

text \<open>\<open>__resize__\<close>: the handler catches \<open>ValueError\<close> and nothing else.\<close>

definition resize ::
  "exn option \<Rightarrow> ('f, 'k) plotwin \<Rightarrow> ('f, 'k) call list \<times> exn option \<times> ('f, 'k) plotwin" where
  "resize lay w =
     (case lay of
        None \<Rightarrow> ([Fig_tight_layout], None, w)
      | Some e \<Rightarrow>
          if e = ValueError then ([Fig_tight_layout], None, w)
          else ([Fig_tight_layout], Some e, w))"

text \<open>
  \<open>__relabel__\<close>.  \<open>res\<close> is \<open>p.result\<close> of the text dialog once it has been
  dismissed: \<open>None\<close> after a cancel, the pair of the text and \<open>None\<close> after a confirm.
  The title of the dialog reads \<open>self.labels[i]\<close> before the dialog opens.
\<close>

definition relabel ::
  "exn option \<Rightarrow> (('f, 'k) call \<Rightarrow> exn option) \<Rightarrow> nat \<Rightarrow> (string \<times> 'f option) option \<Rightarrow>
   ('f, 'k) plotwin \<Rightarrow> ('f, 'k) call list \<times> exn option \<times> ('f, 'k) plotwin" where
  "relabel lay lib i res w =
     (case seq_get (labels w) i of
        Inl e \<Rightarrow> ([], Some e, w)
      | Inr old \<Rightarrow>
          (case res of
             None \<Rightarrow> ([], None, w)
           | Some r \<Rightarrow>
               (case seq_set (labels w) i (fst r) of
                  Inl e \<Rightarrow> ([], Some e, w)
                | Inr ls \<Rightarrow>
                    (case plot lay lib (w\<lparr>labels := ls\<rparr>) of
                       (cs, Some e, w') \<Rightarrow> (cs, Some e, w')
                     | (cs, None, w') \<Rightarrow> (cs @ [Relabel_entryconfig i (fst r)], None, w')))))"

subsection \<open>The constructor\<close>

text \<open>
  An argument that may be \<open>None\<close>, a \<open>str\<close>, a \<open>list\<close> or a \<open>tuple\<close> of strings, or
  a value of another type.
\<close>

datatype seq_arg = Arg_none | Arg_str string | Arg_list "string list"
  | Arg_tuple "string list" | Arg_other

text \<open>\<open>a_data\<close> is \<open>None\<close> when \<open>data\<close> is not an instance of \<open>numpy.ndarray\<close>.\<close>

record ('f, 'k) plot_args =
  a_data :: "'f ndarray option"
  a_plotType :: int
  a_fmt :: seq_arg
  a_labels :: seq_arg
  a_xlabel :: "string option"
  a_xlabelSize :: 'f
  a_ylabel :: "string option"
  a_ylabelSize :: 'f
  a_logX :: bool
  a_logY :: bool
  a_xlim :: "('f \<times> 'f) option"
  a_ylim :: "('f \<times> 'f) option"
  a_legend :: bool
  a_legendLoc :: int
  a_legendFontSize :: int
  a_title :: "string option"
  a_titleSize :: 'f
  a_windowTitle :: string
  a_kwargs :: "(string \<times> 'k) list"

text \<open>
  Lines 87 to 92.  In \<open>isinstance(fmt, list) or isinstance(fmt, tuple) and
  len(fmt) == self.data.shape[0]\<close> the \<open>and\<close> binds tighter than the \<open>or\<close>: the
  length is compared for a tuple only, and \<open>shape[0]\<close> is read for a tuple only.
\<close>

definition store_fmt :: "seq_arg \<Rightarrow> nat list \<Rightarrow> exn + string pyseq option" where
  "store_fmt arg sh =
     (let fmt1 = (case arg of Arg_str s \<Rightarrow> Arg_list [s] | other \<Rightarrow> other) in
      case fmt1 of
        Arg_list xs \<Rightarrow> Inr (Some (PyList xs))
      | Arg_tuple xs \<Rightarrow>
          bnd (shape_at_0 sh) (\<lambda>n. if length xs = n then Inr (Some (PyTuple xs)) else Inr None)
      | other \<Rightarrow> Inr None)"

text \<open>
  Lines 95 to 105.  The result is \<open>None\<close> when \<open>self.labels\<close> is never assigned.
\<close>

definition default_labels :: "nat \<Rightarrow> string list" where
  "default_labels n = map (\<lambda>i. ''Series '' @ str_nat (i + 1)) [0..<n]"

definition store_labels :: "seq_arg \<Rightarrow> nat list \<Rightarrow> exn + string pyseq option" where
  "store_labels arg sh =
     bnd (case arg of
            Arg_none \<Rightarrow>
              if length sh = 2 then Inr (Arg_str ''Series 1'')
              else bnd (shape_at_0 sh) (\<lambda>n. Inr (Arg_list (default_labels n)))
          | other \<Rightarrow> Inr other)
       (\<lambda>labels1.
          let labels2 = (case labels1 of Arg_str s \<Rightarrow> Arg_list [s] | other \<Rightarrow> other) in
          case labels2 of
            Arg_list xs \<Rightarrow> Inr (Some (PyList xs))
          | Arg_tuple xs \<Rightarrow> Inr (Some (PyTuple xs))
          | other \<Rightarrow> Inr None)"

text \<open>
  \<open>__menubar__\<close>, as far as it depends on the data and the labels: the radio buttons
  of the plot types with their states (\<open>True\<close> for \<open>tk.NORMAL\<close>), and one entry of the
  relabel menu per label.  The entries of the other menus are fixed and are left out.
  Reading \<open>self.labels\<close> raises \<open>AttributeError\<close> when it was never assigned.
\<close>

definition menubar ::
  "nat list \<Rightarrow> string pyseq option \<Rightarrow> ('f, 'k) call list \<times> exn option" where
  "menubar sh lo =
     (let shp = (if length sh \<ge> 2 then sh ! (length sh - 2) else 1) in
      case (if shp = 1 then Inr True
            else bnd (shape_at_0 sh) (\<lambda>n.
                 case lo of None \<Rightarrow> Inl AttributeError
                          | Some ls \<Rightarrow> Inr (n = length (items ls)))) of
        Inl e \<Rightarrow> ([], Some e)
      | Inr stateHist \<Rightarrow>
          (let radios =
             [PlotType_radiobutton ''Plot'' TYPE_PLOT (shp = 2),
              PlotType_radiobutton ''Error Bar'' TYPE_ERRORBAR (shp = 2),
              PlotType_radiobutton ''Bar'' TYPE_BAR (shp = 2),
              PlotType_radiobutton ''Histogram'' TYPE_HISTOGRAM stateHist,
              PlotType_radiobutton ''2-D Histogram'' TYPE_2DHISTOGRAM (shp = 2),
              PlotType_radiobutton ''Contour'' TYPE_CONTOUR (shp = 3),
              PlotType_radiobutton ''Image'' TYPE_IMAGE True,
              PlotType_radiobutton ''Color Mesh'' TYPE_COLORMESH (shp = 3),
              PlotType_radiobutton ''Date Plot'' TYPE_DATEPLOT (shp = 2),
              PlotType_radiobutton ''Vector'' TYPE_VECTOR (shp = 4)]
           in case lo of
                None \<Rightarrow> (radios, Some AttributeError)
              | Some ls \<Rightarrow>
                  (radios @ map Relabel_add_command (items ls) @ [Config_menu], None)))"

text \<open>
  The fields as \<open>__init__\<close> and \<open>__menubar__\<close> store them, given the data, the
  stored format strings and the stored labels.  \<open>showToolbar\<close> is a fresh
  \<open>BooleanVar\<close>, \<open>toolbar\<close> is \<open>None\<close>.
\<close>

definition init_fields ::
  "('f, 'k) plot_args \<Rightarrow> 'f ndarray \<Rightarrow> string pyseq option \<Rightarrow> string pyseq \<Rightarrow>
   ('f, 'k) plotwin" where
  "init_fields a d f ls =
     \<lparr> kwargs = a_kwargs a, data = d, fmt = f, labels = ls,
       xlabel = a_xlabel a, ylabel = a_ylabel a,
       xlabelSize = a_xlabelSize a, ylabelSize = a_ylabelSize a,
       title = a_title a, titleSize = a_titleSize a,
       xlim = a_xlim a, ylim = a_ylim a,
       logX = a_logX a, logY = a_logY a,
       legend = a_legend a, legendLoc = a_legendLoc a,
       legendFontSize = a_legendFontSize a,
       plotTypeVar = a_plotType a,
       showToolbar = False, toolbar = False \<rparr>"

text \<open>
  \<open>Plot.__init__\<close>: the calls issued, the exception raised if any, and the object if
  all its fields have been set.  \<open>super().__init__()\<close> and \<open>self.title(windowTitle)\<close>
  come first, then the assertion on \<open>data\<close>; \<open>__plot__\<close> comes last.
\<close>

definition Plot_init ::
  "exn option \<Rightarrow> (('f, 'k) call \<Rightarrow> exn option) \<Rightarrow> ('f, 'k) plot_args \<Rightarrow>
   ('f, 'k) call list \<times> exn option \<times> ('f, 'k) plotwin option" where
  "Plot_init lay lib a =
     (let c0 = [Toplevel_create, Wm_title (a_windowTitle a)] in
      case a_data a of
        None \<Rightarrow> (c0, Some AssertionError, None)
      | Some d \<Rightarrow>
          (case store_fmt (a_fmt a) (shape d) of
             Inl e \<Rightarrow> (c0, Some e, None)
           | Inr f \<Rightarrow>
               (case store_labels (a_labels a) (shape d) of
                  Inl e \<Rightarrow> (c0, Some e, None)
                | Inr lo \<Rightarrow>
                    (let c1 = c0 @ [Frame_pack, Figure_create, Canvas_create, Frame_pack] in
                     case (menubar (shape d) lo, lo) of
                       ((ms, Some e), _) \<Rightarrow> (c1 @ ms, Some e, None)
                     | ((ms, None), None) \<Rightarrow> (c1 @ ms, Some AttributeError, None)
                     | ((ms, None), Some ls) \<Rightarrow>
                         (case plot lay lib (init_fields a d f ls) of
                            (ps, ex, w') \<Rightarrow> (c1 @ ms @ [Bind_events] @ ps, ex, Some w'))))))"

text \<open>The labels of the entries that a sequence of calls adds to the relabel menu.\<close>

fun relabel_entries :: "('f, 'k) call list \<Rightarrow> string list" where
  "relabel_entries [] = []"
| "relabel_entries (Relabel_add_command l # cs) = l # relabel_entries cs"
| "relabel_entries (c # cs) = relabel_entries cs"

text \<open>The drawing calls among a sequence of calls.\<close>

fun is_drawing :: "('f, 'k) call \<Rightarrow> bool" where
  "is_drawing (Ax_plot x y f l k) = True"
| "is_drawing (Ax_errorbar x y f l k) = True"
| "is_drawing (Ax_bar x y l k) = True"
| "is_drawing (Ax_hist x l k) = True"
| "is_drawing c = False"

text \<open>The arguments of the calls that set the scale of an axis.\<close>

fun xscales :: "('f, 'k) call list \<Rightarrow> string list" where
  "xscales [] = []"
| "xscales (Ax_set_xscale s # cs) = s # xscales cs"
| "xscales (c # cs) = xscales cs"

fun yscales :: "('f, 'k) call list \<Rightarrow> string list" where
  "yscales [] = []"
| "yscales (Ax_set_yscale s # cs) = s # yscales cs"
| "yscales (c # cs) = yscales cs"

text \<open>
  The defaults of the keyword arguments of \<open>Plot.__init__\<close>, for integer data and no
  further keyword arguments.
\<close>

definition default_args :: "int ndarray option \<Rightarrow> (int, unit) plot_args" where
  "default_args d =
     \<lparr> a_data = d, a_plotType = TYPE_PLOT, a_fmt = Arg_none, a_labels = Arg_none,
       a_xlabel = Some [], a_xlabelSize = 12, a_ylabel = Some [], a_ylabelSize = 12,
       a_logX = False, a_logY = False, a_xlim = None, a_ylim = None,
       a_legend = False, a_legendLoc = 1, a_legendFontSize = 10,
       a_title = Some [], a_titleSize = 14, a_windowTitle = ''mplWindow'',
       a_kwargs = [] \<rparr>"

text \<open>
  The two windows that \<open>test.py\<close> opens: \<open>Plot(data, xlabel='foo', ylabel='bar')\<close>
  with the data \<open>[[1,2,3],[1,2,3]]\<close>, and the histogram of eighteen samples.
\<close>

definition plot1_args :: "(int, unit) plot_args" where
  "plot1_args =
     (default_args (Some (NDArray [2, 3] [1, 2, 3, 1, 2, 3])))
       \<lparr>a_xlabel := Some ''foo'', a_ylabel := Some ''bar''\<rparr>"

definition plot2_args :: "(int, unit) plot_args" where
  "plot2_args =
     (default_args
        (Some (NDArray [18] [1, 2, 3, 2, 2, 2, 1, 1, 1, 1, 2, 3, 2, 2, 2, 2, 2, 1])))
       \<lparr>a_plotType := TYPE_HISTOGRAM, a_xlabel := Some ''foo'', a_ylabel := Some ''bar''\<rparr>"

definition plot1_window :: "(int, unit) plotwin" where
  "plot1_window =
     \<lparr> kwargs = [], data = NDArray [2, 3] [1, 2, 3, 1, 2, 3], fmt = None,
       labels = PyList [''Series 1''], xlabel = Some ''foo'', ylabel = Some ''bar'',
       xlabelSize = 12, ylabelSize = 12, title = Some [], titleSize = 14,
       xlim = None, ylim = None, logX = False, logY = False,
       legend = False, legendLoc = 1, legendFontSize = 10,
       plotTypeVar = TYPE_PLOT, showToolbar = False, toolbar = False \<rparr>"

text \<open>
  A window of three series whose labels are passed as a tuple:
  \<open>Plot(data, labels=('a', 'b', 'c'))\<close> with data of shape \<open>(3, 2, 1)\<close>.
\<close>

definition tuple_args :: "(int, unit) plot_args" where
  "tuple_args = (default_args (Some (NDArray [3, 2, 1] [1, 2, 3, 4, 5, 6])))
        \<lparr>a_labels := Arg_tuple [''a'', ''b'', ''c'']\<rparr>"

definition tuple_window :: "(int, unit) plotwin" where
  "tuple_window = \<lparr> kwargs = [], data = NDArray [3, 2, 1] [1, 2, 3, 4, 5, 6],
             fmt = None,
             labels = PyTuple [''a'', ''b'', ''c''],
             xlabel = Some [], ylabel = Some [], xlabelSize = 12, ylabelSize = 12,
             title = Some [], titleSize = 14, xlim = None, ylim = None,
             logX = False, logY = False, legend = False, legendLoc = 1,
             legendFontSize = 10, plotTypeVar = TYPE_PLOT, showToolbar = False,
             toolbar = False \<rparr>"

text \<open>
  A window of three series with the default labels, and the same window after the
  histogram type has been selected and the x axis has been switched to a log scale.
\<close>

definition series3_args :: "(int, unit) plot_args" where
  "series3_args = default_args (Some (NDArray [3, 2, 1] [1, 2, 3, 4, 5, 6]))"

definition series3_window :: "(int, unit) plotwin" where
  "series3_window =
     \<lparr> kwargs = [], data = NDArray [3, 2, 1] [1, 2, 3, 4, 5, 6], fmt = None,
       labels = PyList [''Series 1'', ''Series 2'', ''Series 3''],
       xlabel = Some [], ylabel = Some [], xlabelSize = 12, ylabelSize = 12,
       title = Some [], titleSize = 14, xlim = None, ylim = None,
       logX = False, logY = False, legend = False, legendLoc = 1,
       legendFontSize = 10, plotTypeVar = TYPE_PLOT, showToolbar = False,
       toolbar = False \<rparr>"

definition series3_hist_log :: "(int, unit) plotwin" where
  "series3_hist_log = series3_window\<lparr>plotTypeVar := TYPE_HISTOGRAM, logX := True\<rparr>"

text \<open>
  The first window of \<open>test.py\<close> with limits on the x axis, the legend shown and the
  toolbar shown.
\<close>

definition plot1_decorated :: "(int, unit) plotwin" where
  "plot1_decorated =
     plot1_window\<lparr>xlim := Some (0, 4), legend := True, showToolbar := True\<rparr>"

section \<open>Properties of the dialogs\<close>

lemma dec_float_2: "dec_float ''2'' = Some 2"
  by (simp add: dec_float_def is_digit_def digit_val_def)

lemma dec_float_5: "dec_float ''5'' = Some 5"
  by (simp add: dec_float_def is_digit_def digit_val_def)

lemma dec_float_12: "dec_float ''12'' = Some 12"
  by (simp add: dec_float_def is_digit_def digit_val_def)

lemma dec_float_abc: "dec_float ''abc'' = None"
  by (simp add: dec_float_def is_digit_def)

text \<open>
  C1.  In an open numeric-range dialog that has no result yet, pressing OK stores a
  result and destroys the window if and only if both entries are accepted by \<open>float\<close>
  and the second number is greater than the first.  The result is then the pair of the
  two numbers.  Otherwise the window stays shown and the result stays absent.
\<close>

theorem limitPrompt_confirm:
  assumes "lp_result d = None" and "lp_window d = Shown"
  shows "((\<exists>d' r. lp_ok pyfloat gt d = Inr d' \<and> lp_result d' = Some r \<and> lp_window d' = Destroyed)
            = (\<exists>a b. pyfloat (lp_var1 d) = Some a \<and> pyfloat (lp_var2 d) = Some b \<and> gt b a)) \<and>
         (\<forall>a b. pyfloat (lp_var1 d) = Some a \<and> pyfloat (lp_var2 d) = Some b \<and> gt b a \<longrightarrow>
            (\<exists>d'. lp_ok pyfloat gt d = Inr d' \<and> lp_result d' = Some (a, b) \<and>
                  lp_window d' = Destroyed)) \<and>
         (\<not> (\<exists>a b. pyfloat (lp_var1 d) = Some a \<and> pyfloat (lp_var2 d) = Some b \<and> gt b a) \<longrightarrow>
            (\<exists>d'. lp_ok pyfloat gt d = Inr d' \<and> lp_result d' = None \<and> lp_window d' = Shown))"
  using assms
  by (auto simp: lp_ok_def lp_validate_def lp_apply_def lp_cancel_def bnd_def Let_def
      split: option.splits)

text \<open>The entries 2 and 5 give the result (2, 5); the entries 5 and 2 give none.\<close>

theorem limitPrompt_confirm_witness:
  "(\<exists>d'. lp_ok dec_float (\<lambda>b a. a < b)
           \<lparr> lp_parent = True, lp_parent_focus = False, lp_result = None,
             lp_var1 = ''2'', lp_var2 = ''5'', lp_window = Shown, lp_stdout = [] \<rparr> = Inr d' \<and>
         lp_result d' = Some (2, 5) \<and> lp_window d' = Destroyed) \<and>
   (\<exists>d'. lp_ok dec_float (\<lambda>b a. a < b)
           \<lparr> lp_parent = True, lp_parent_focus = False, lp_result = None,
             lp_var1 = ''5'', lp_var2 = ''2'', lp_window = Shown, lp_stdout = [] \<rparr> = Inr d' \<and>
         lp_result d' = None \<and> lp_window d' = Shown)"
  using limitPrompt_confirm [of "\<lparr> lp_parent = True, lp_parent_focus = False, lp_result = None,
             lp_var1 = ''2'', lp_var2 = ''5'', lp_window = Shown, lp_stdout = [] \<rparr>"
           dec_float "\<lambda>b a. a < b"]
    limitPrompt_confirm [of "\<lparr> lp_parent = True, lp_parent_focus = False, lp_result = None,
             lp_var1 = ''5'', lp_var2 = ''2'', lp_window = Shown, lp_stdout = [] \<rparr>"
           dec_float "\<lambda>b a. a < b"]
  by (simp add: dec_float_2 dec_float_5)

text \<open>
  C2.  In an open text dialog that asks for the font size and has no result yet,
  pressing OK stores a result and destroys the window if and only if the font-size
  entry is accepted by \<open>float\<close>.  The result is then the pair of the text and the font
  size.  Otherwise the window stays shown and the result stays absent.  Cancelling (the
  Cancel button, Escape or the window manager's close) destroys the window and leaves
  the result absent.
\<close>

theorem textPrompt_confirm:
  assumes "tp_getFontSize d" and "tp_fontVar d = Some s"
    and "tp_result d = None" and "tp_window d = Shown"
  shows "((\<exists>d' r. tp_ok pyfloat d = Inr d' \<and> tp_result d' = Some r \<and> tp_window d' = Destroyed)
            = (\<exists>v. pyfloat s = Some v)) \<and>
         (\<forall>v. pyfloat s = Some v \<longrightarrow>
            (\<exists>d'. tp_ok pyfloat d = Inr d' \<and> tp_result d' = Some (tp_var d, Some v) \<and>
                  tp_window d' = Destroyed)) \<and>
         (pyfloat s = None \<longrightarrow>
            (\<exists>d'. tp_ok pyfloat d = Inr d' \<and> tp_result d' = None \<and> tp_window d' = Shown)) \<and>
         tp_result (tp_cancel d) = None \<and> tp_window (tp_cancel d) = Destroyed"
  using assms
  by (auto simp: tp_ok_def tp_validate_def tp_apply_def tp_cancel_def bnd_def Let_def
      split: option.splits)

text \<open>
  The text \<open>Energy (keV)\<close> with the font size 12 gives that pair; with the font size
  \<open>abc\<close> it gives no result.
\<close>

theorem textPrompt_confirm_witness:
  "(\<exists>d'. tp_ok dec_float
           (textPrompt_init True (Some ''Energy (keV)'') (Some ''12'') True) = Inr d' \<and>
         tp_result d' = Some (''Energy (keV)'', Some 12) \<and> tp_window d' = Destroyed) \<and>
   (\<exists>d'. tp_ok dec_float
           (textPrompt_init True (Some ''Energy (keV)'') (Some ''abc'') True) = Inr d' \<and>
         tp_result d' = None \<and> tp_window d' = Shown)"
  using textPrompt_confirm [of "textPrompt_init True (Some ''Energy (keV)'') (Some ''12'') True"
      "''12''" dec_float]
    textPrompt_confirm [of "textPrompt_init True (Some ''Energy (keV)'') (Some ''abc'') True"
      "''abc''" dec_float]
  by (simp add: dec_float_12 dec_float_abc textPrompt_init_def)

section \<open>Properties of the render step\<close>

lemmas TYPE_defs = TYPE_PLOT_def TYPE_ERRORBAR_def TYPE_BAR_def TYPE_HISTOGRAM_def
  TYPE_2DHISTOGRAM_def TYPE_CONTOUR_def TYPE_IMAGE_def TYPE_COLORMESH_def
  TYPE_DATEPLOT_def TYPE_VECTOR_def

lemmas series_defs = plot_single_def plot_series_def errorbar_single_def errorbar_series_def
  bar_single_def bar_series_def hist_single_def hist_series_def

lemma plot1_window_built:
  "Plot_init None all_return plot1_args =
     ([Toplevel_create, Wm_title ''mplWindow'', Frame_pack, Figure_create, Canvas_create,
       Frame_pack,
       PlotType_radiobutton ''Plot'' 0 True, PlotType_radiobutton ''Error Bar'' 1 True,
       PlotType_radiobutton ''Bar'' 2 True, PlotType_radiobutton ''Histogram'' 3 False,
       PlotType_radiobutton ''2-D Histogram'' 4 True, PlotType_radiobutton ''Contour'' 5 False,
       PlotType_radiobutton ''Image'' 6 True, PlotType_radiobutton ''Color Mesh'' 7 False,
       PlotType_radiobutton ''Date Plot'' 8 True, PlotType_radiobutton ''Vector'' 9 False,
       Relabel_add_command ''Series 1'', Config_menu, Bind_events,
       Ax_clear,
       Ax_plot (NDArray [3] [1, 2, 3]) (NDArray [3] [1, 2, 3]) None ''Series 1'' [],
       Ax_set_xscale ''linear'', Ax_set_yscale ''linear'',
       Ax_set_xlabel ''foo'' 12, Ax_set_ylabel ''bar'' 12,
       Fig_tight_layout, Canvas_draw],
      None, Some plot1_window)"
  by code_simp

text \<open>The drawing calls depend on five fields only.\<close>

lemma draw_cong:
  assumes "data w = data v" "fmt w = fmt v" "labels w = labels v" "kwargs w = kwargs v"
    "plotTypeVar w = plotTypeVar v"
  shows "draw lib w = draw lib v"
proof -
  have "plot_series w = plot_series v" "errorbar_series w = errorbar_series v"
    "bar_series w = bar_series v" "hist_series w = hist_series v"
    using assms by (simp_all add: fun_eq_iff series_defs split: option.splits)
  moreover have "plot_single w = plot_single v" "errorbar_single w = errorbar_single v"
    "bar_single w = bar_single v" "hist_single w = hist_single v"
    using assms by (simp_all add: series_defs split: option.splits)
  ultimately show ?thesis
    using assms by (simp add: draw_def Let_def cong: if_cong)
qed

lemma plot_window:
  "snd (snd (plot lay lib w)) = w \<or> snd (snd (plot lay lib w)) = w\<lparr>toolbar := True\<rparr>"
  by (auto simp: plot_def finish_def split: prod.splits option.splits)

lemma plot_exn:
  "fst (snd (plot lay lib w)) = (case snd (draw lib w) of Some e \<Rightarrow> Some e | None \<Rightarrow> lay)"
  by (auto simp: plot_def finish_def split: prod.splits option.splits)

lemma plot_labels: "labels (snd (snd (plot lay lib w))) = labels w"
  using plot_window [of lay lib w] by auto

lemma plot_calls:
  "draw lib w = (cs, None) \<Longrightarrow> fst (plot lay lib w) =
     Ax_clear # cs @ limit_calls w @ scale_calls w @ label_calls w @ legend_calls w @
     fst (finish lay w)"
  "draw lib w = (cs, Some e) \<Longrightarrow> fst (plot lay lib w) = Ax_clear # cs"
  by (simp_all add: plot_def split: prod.splits)

text \<open>Every call of the drawing phase is a drawing call.\<close>

lemma bnd_Inr: "bnd m f = Inr c \<Longrightarrow> \<exists>x. m = Inr x \<and> f x = Inr c"
  by (cases m) (simp_all add: bnd_def)

lemma call_kw_Inr: "call_kw named kw c = Inr c' \<Longrightarrow> c' = c"
  by (simp add: call_kw_def split: if_splits)

lemma series_drawing:
  "plot_single w = Inr c \<Longrightarrow> is_drawing c"
  "plot_series w i = Inr c \<Longrightarrow> is_drawing c"
  "errorbar_single w = Inr c \<Longrightarrow> is_drawing c"
  "errorbar_series w i = Inr c \<Longrightarrow> is_drawing c"
  "bar_single w = Inr c \<Longrightarrow> is_drawing c"
  "bar_series w i = Inr c \<Longrightarrow> is_drawing c"
  "hist_single w = Inr c \<Longrightarrow> is_drawing c"
  "hist_series w i = Inr c \<Longrightarrow> is_drawing c"
  by (auto simp: series_defs split: option.splits dest!: bnd_Inr call_kw_Inr)

lemma draw_one_drawing:
  "(\<And>c. r = Inr c \<Longrightarrow> is_drawing c) \<Longrightarrow> list_all is_drawing (fst (draw_one lib r))"
  by (cases r) (simp_all add: draw_one_def)

lemma draw_loop_drawing:
  "(\<And>i c. f i = Inr c \<Longrightarrow> is_drawing c) \<Longrightarrow> list_all is_drawing (fst (draw_loop lib f is))"
  by (induction "is") (auto split: sum.splits prod.splits option.splits)

lemma range_loop_drawing:
  "(\<And>i c. f i = Inr c \<Longrightarrow> is_drawing c) \<Longrightarrow> list_all is_drawing (fst (range_loop lib f sh))"
  by (auto simp: range_loop_def draw_loop_drawing split: sum.splits)

lemma draw_xy_drawing:
  "(\<And>c. single = Inr c \<Longrightarrow> is_drawing c) \<Longrightarrow> (\<And>i c. series i = Inr c \<Longrightarrow> is_drawing c)
   \<Longrightarrow> list_all is_drawing (fst (draw_xy lib sh single series))"
  by (auto simp: draw_xy_def draw_one_drawing range_loop_drawing split: sum.splits)

lemma draw_drawing: "list_all is_drawing (fst (draw lib w))"
  by (auto simp: draw_def Let_def series_drawing
      intro!: draw_xy_drawing draw_one_drawing range_loop_drawing)

lemma xscales_append: "xscales (cs @ ds) = xscales cs @ xscales ds"
  by (induction cs rule: xscales.induct) simp_all

lemma yscales_append: "yscales (cs @ ds) = yscales cs @ yscales ds"
  by (induction cs rule: yscales.induct) simp_all

lemma relabel_entries_append:
  "relabel_entries (cs @ ds) = relabel_entries cs @ relabel_entries ds"
  by (induction cs rule: relabel_entries.induct) simp_all

lemma drawing_xscales: "list_all is_drawing cs \<Longrightarrow> xscales cs = []"
  by (induction cs rule: xscales.induct) simp_all

lemma drawing_yscales: "list_all is_drawing cs \<Longrightarrow> yscales cs = []"
  by (induction cs rule: yscales.induct) simp_all

lemma drawing_relabel_entries: "list_all is_drawing cs \<Longrightarrow> relabel_entries cs = []"
  by (induction cs rule: relabel_entries.induct) simp_all

lemma draw_unimplemented:
  "plotTypeVar w \<in> {TYPE_2DHISTOGRAM, TYPE_CONTOUR, TYPE_IMAGE, TYPE_COLORMESH,
       TYPE_DATEPLOT, TYPE_VECTOR} \<Longrightarrow> draw lib w = ([], None)"
  by (auto simp: draw_def TYPE_defs)

lemma finish_exn: "fst (snd (finish lay w)) = lay"
  by (simp add: finish_def split: option.splits)

text \<open>
  For the six plot types without a rendering branch the render step is the clearing of
  the axes followed by the common part: the limits that are set, the two scales, the
  texts that are not empty, the legend if it is shown, the layout fit and, if that
  returns, the toolbar and the redraw of the canvas.  No drawing call is made, and the
  render step raises what the layout fit raises.
\<close>

lemma unimplemented_plot_type:
  assumes "t \<in> {TYPE_2DHISTOGRAM, TYPE_CONTOUR, TYPE_IMAGE, TYPE_COLORMESH,
       TYPE_DATEPLOT, TYPE_VECTOR}"
  shows "draw lib (w\<lparr>plotTypeVar := t\<rparr>) = ([], None)"
    and "fst (select_plotType lay lib t w) =
           Ax_clear #
           (case xlim w of None \<Rightarrow> [] | Some (lo, hi) \<Rightarrow> [Ax_set_xlim lo hi]) @
           (case ylim w of None \<Rightarrow> [] | Some (lo, hi) \<Rightarrow> [Ax_set_ylim lo hi]) @
           [Ax_set_xscale (if logX w then ''log'' else ''linear''),
            Ax_set_yscale (if logY w then ''log'' else ''linear'')] @
           (case xlabel w of None \<Rightarrow> []
            | Some s \<Rightarrow> if s = [] then [] else [Ax_set_xlabel s (xlabelSize w)]) @
           (case ylabel w of None \<Rightarrow> []
            | Some s \<Rightarrow> if s = [] then [] else [Ax_set_ylabel s (ylabelSize w)]) @
           (case title w of None \<Rightarrow> []
            | Some s \<Rightarrow> if s = [] then [] else [Ax_set_title s (titleSize w)]) @
           (if legend w then [Ax_legend (legendLoc w) (legendFontSize w)] else []) @
           Fig_tight_layout #
           (case lay of
              Some e \<Rightarrow> []
            | None \<Rightarrow>
                (if showToolbar w then [Toolbar_create, Canvas_pack, Toolbar_update]
                 else if toolbar w then [Toolbar_destroy] else []) @ [Canvas_draw])"
    and "filter is_drawing (fst (select_plotType lay lib t w)) = []"
    and "fst (snd (select_plotType lay lib t w)) = lay"
proof -
  show d: "draw lib (w\<lparr>plotTypeVar := t\<rparr>) = ([], None)"
    using assms by (intro draw_unimplemented) simp
  show c: "fst (select_plotType lay lib t w) =
           Ax_clear #
           (case xlim w of None \<Rightarrow> [] | Some (lo, hi) \<Rightarrow> [Ax_set_xlim lo hi]) @
           (case ylim w of None \<Rightarrow> [] | Some (lo, hi) \<Rightarrow> [Ax_set_ylim lo hi]) @
           [Ax_set_xscale (if logX w then ''log'' else ''linear''),
            Ax_set_yscale (if logY w then ''log'' else ''linear'')] @
           (case xlabel w of None \<Rightarrow> []
            | Some s \<Rightarrow> if s = [] then [] else [Ax_set_xlabel s (xlabelSize w)]) @
           (case ylabel w of None \<Rightarrow> []
            | Some s \<Rightarrow> if s = [] then [] else [Ax_set_ylabel s (ylabelSize w)]) @
           (case title w of None \<Rightarrow> []
            | Some s \<Rightarrow> if s = [] then [] else [Ax_set_title s (titleSize w)]) @
           (if legend w then [Ax_legend (legendLoc w) (legendFontSize w)] else []) @
           Fig_tight_layout #
           (case lay of
              Some e \<Rightarrow> []
            | None \<Rightarrow>
                (if showToolbar w then [Toolbar_create, Canvas_pack, Toolbar_update]
                 else if toolbar w then [Toolbar_destroy] else []) @ [Canvas_draw])"
    by (simp add: select_plotType_def plot_calls(1) [OF d] limit_calls_def scale_calls_def
        label_calls_def legend_calls_def text_call_def finish_def
        split: option.splits prod.splits)
  show "filter is_drawing (fst (select_plotType lay lib t w)) = []"
    unfolding c by (simp split: option.splits prod.splits)
  show "fst (snd (select_plotType lay lib t w)) = lay"
    by (simp add: select_plotType_def plot_exn d)
qed

text \<open>
  C6.  Selecting the image type, whose menu entry is always enabled, in the first window
  of \<open>test.py\<close>, with limits, legend and toolbar switched on.  When the layout fit
  returns, the render step clears the axes, draws nothing and applies the common part.
  When the layout fit raises \<open>ValueError\<close>, the render step raises it: nothing catches
  it at line 271, and the canvas is not redrawn.
\<close>

theorem unimplemented_type_layout_error:
  "select_plotType None all_return TYPE_IMAGE plot1_decorated =
     ([Ax_clear, Ax_set_xlim 0 4, Ax_set_xscale ''linear'', Ax_set_yscale ''linear'',
       Ax_set_xlabel ''foo'' 12, Ax_set_ylabel ''bar'' 12, Ax_legend 1 10,
       Fig_tight_layout, Toolbar_create, Canvas_pack, Toolbar_update, Canvas_draw],
      None, plot1_decorated\<lparr>plotTypeVar := TYPE_IMAGE, toolbar := True\<rparr>) \<and>
   select_plotType (Some ValueError) all_return TYPE_IMAGE plot1_decorated =
     ([Ax_clear, Ax_set_xlim 0 4, Ax_set_xscale ''linear'', Ax_set_yscale ''linear'',
       Ax_set_xlabel ''foo'' 12, Ax_set_ylabel ''bar'' 12, Ax_legend 1 10,
       Fig_tight_layout],
      Some ValueError, plot1_decorated\<lparr>plotTypeVar := TYPE_IMAGE\<rparr>)"
  by code_simp

section \<open>Log scales\<close>

lemma common_scales:
  "xscales (limit_calls w) = []" "yscales (limit_calls w) = []"
  "xscales (label_calls w) = []" "yscales (label_calls w) = []"
  "xscales (legend_calls w) = []" "yscales (legend_calls w) = []"
  "xscales (fst (finish lay w)) = []" "yscales (fst (finish lay w)) = []"
  "xscales (scale_calls w) = [if logX w then ''log'' else ''linear'']"
  "yscales (scale_calls w) = [if logY w then ''log'' else ''linear'']"
  by (auto simp: limit_calls_def scale_calls_def label_calls_def legend_calls_def finish_def
      text_call_def xscales_append yscales_append split: option.splits)

lemma plot_xscales:
  "xscales (fst (plot lay lib w)) =
     (if snd (draw lib w) = None then [if logX w then ''log'' else ''linear''] else [])"
proof (cases "draw lib w")
  case (Pair cs ex)
  then have "xscales cs = []"
    using draw_drawing [of lib w] by (simp add: drawing_xscales)
  then show ?thesis
    using Pair
    by (cases ex) (simp_all add: plot_calls xscales_append common_scales)
qed

lemma plot_yscales:
  "yscales (fst (plot lay lib w)) =
     (if snd (draw lib w) = None then [if logY w then ''log'' else ''linear''] else [])"
proof (cases "draw lib w")
  case (Pair cs ex)
  then have "yscales cs = []"
    using draw_drawing [of lib w] by (simp add: drawing_yscales)
  then show ?thesis
    using Pair
    by (cases ex) (simp_all add: plot_calls yscales_append common_scales)
qed

lemma draw_toggled:
  "draw lib (w\<lparr>logX := b\<rparr>) = draw lib w" "draw lib (w\<lparr>logY := b\<rparr>) = draw lib w"
  "draw lib (w\<lparr>logX := b, toolbar := c\<rparr>) = draw lib w"
  "draw lib (w\<lparr>logY := b, toolbar := c\<rparr>) = draw lib w"
  "draw lib (w\<lparr>logX := b, toolbar := c, logX := b'\<rparr>) = draw lib w"
  "draw lib (w\<lparr>logY := b, toolbar := c, logY := b'\<rparr>) = draw lib w"
  by (rule draw_cong; simp)+

text \<open>
  C7, as stated, fails.  Three series of shape \<open>(3, 2, 1)\<close> build a window in which the
  histogram type can be selected; selecting it raises \<open>AssertionError\<close> (line 232) after
  the axes have been cleared.  Toggling \<open>logX\<close> there makes the flag true, and the render
  step raises again before it sets any scale.
\<close>

theorem log_scale_counterexample:
  "snd (snd (Plot_init None all_return series3_args)) = Some series3_window \<and>
   PlotType_radiobutton ''Histogram'' TYPE_HISTOGRAM True
     \<in> set (fst (Plot_init None all_return series3_args)) \<and>
   select_plotType None all_return TYPE_HISTOGRAM series3_window =
     ([Ax_clear], Some AssertionError, series3_window\<lparr>plotTypeVar := TYPE_HISTOGRAM\<rparr>) \<and>
   toggle_logX None all_return (series3_window\<lparr>plotTypeVar := TYPE_HISTOGRAM\<rparr>) =
     ([Ax_clear], Some AssertionError, series3_hist_log) \<and>
   logX series3_hist_log \<and>
   xscales (fst (plot None all_return series3_hist_log)) = []"
  by code_simp

text \<open>
  C7, amended.  Whenever the drawing phase of the render step completes, the render
  step sets the scale of the x axis once, to \<open>log\<close> if \<open>logX\<close> is true and to \<open>linear\<close>
  if it is false; when the drawing phase raises, no scale is set.  The same holds for
  the y axis and \<open>logY\<close>.  In every window state, toggling a flag negates it, toggling it
  twice restores it, and the render step after the second toggle sets the same scale as
  a render step of the original window, whatever the layout fit does in between.
\<close>

theorem log_scale_toggle:
  "xscales (fst (plot lay lib w)) =
     (if snd (draw lib w) = None then [if logX w then ''log'' else ''linear''] else []) \<and>
   yscales (fst (plot lay lib w)) =
     (if snd (draw lib w) = None then [if logY w then ''log'' else ''linear''] else []) \<and>
   logX (snd (snd (toggle_logX lay1 lib1 w))) = (\<not> logX w) \<and>
   logY (snd (snd (toggle_logY lay1 lib1 w))) = (\<not> logY w) \<and>
   logX (snd (snd (toggle_logX lay2 lib (snd (snd (toggle_logX lay1 lib1 w)))))) = logX w \<and>
   logY (snd (snd (toggle_logY lay2 lib (snd (snd (toggle_logY lay1 lib1 w)))))) = logY w \<and>
   xscales (fst (toggle_logX lay2 lib (snd (snd (toggle_logX lay1 lib1 w))))) =
     xscales (fst (plot lay lib w)) \<and>
   yscales (fst (toggle_logY lay2 lib (snd (snd (toggle_logY lay1 lib1 w))))) =
     yscales (fst (plot lay lib w))"
proof -
  let ?x1 = "snd (snd (toggle_logX lay1 lib1 w))"
  let ?y1 = "snd (snd (toggle_logY lay1 lib1 w))"
  have x1: "?x1 = w\<lparr>logX := \<not> logX w\<rparr> \<or> ?x1 = w\<lparr>logX := \<not> logX w, toolbar := True\<rparr>"
    using plot_window [of lay1 lib1 "w\<lparr>logX := \<not> logX w\<rparr>"] by (simp add: toggle_logX_def)
  have y1: "?y1 = w\<lparr>logY := \<not> logY w\<rparr> \<or> ?y1 = w\<lparr>logY := \<not> logY w, toolbar := True\<rparr>"
    using plot_window [of lay1 lib1 "w\<lparr>logY := \<not> logY w\<rparr>"] by (simp add: toggle_logY_def)
  have x2: "logX (snd (snd (toggle_logX lay2 lib ?x1))) = logX w"
    using x1 plot_window [of lay2 lib "?x1\<lparr>logX := \<not> logX ?x1\<rparr>"]
    by (auto simp: toggle_logX_def)
  have y2: "logY (snd (snd (toggle_logY lay2 lib ?y1))) = logY w"
    using y1 plot_window [of lay2 lib "?y1\<lparr>logY := \<not> logY ?y1\<rparr>"]
    by (auto simp: toggle_logY_def)
  have x3: "xscales (fst (toggle_logX lay2 lib ?x1)) = xscales (fst (plot lay lib w))"
    using x1 by (auto simp: toggle_logX_def [of lay2] plot_xscales draw_toggled)
  have y3: "yscales (fst (toggle_logY lay2 lib ?y1)) = yscales (fst (plot lay lib w))"
    using y1 by (auto simp: toggle_logY_def [of lay2] plot_yscales draw_toggled)
  show ?thesis
    using x1 y1 x2 y2 x3 y3 by (auto simp: plot_xscales plot_yscales)
qed

text \<open>
  In the first window of \<open>test.py\<close> the x axis is linear; one toggle makes it
  logarithmic, the second one linear again.
\<close>

theorem log_scale_toggle_witness:
  "xscales (fst (plot None all_return plot1_window)) = [''linear''] \<and>
   xscales (fst (toggle_logX None all_return plot1_window)) = [''log''] \<and>
   xscales (fst (toggle_logX None all_return
                   (snd (snd (toggle_logX None all_return plot1_window))))) = [''linear'']"
proof -
  have d: "snd (draw all_return plot1_window) = None" by code_simp
  have l: "logX plot1_window = False" by (simp add: plot1_window_def)
  have t: "xscales (fst (toggle_logX None all_return plot1_window)) = [''log'']" by code_simp
  show ?thesis
    using log_scale_toggle [of None all_return plot1_window None all_return None] d l t by simp
qed

section \<open>Layout exceptions\<close>

text \<open>
  C9, as stated, fails: a \<open>ValueError\<close> of the layout fit at the end of the render step
  is raised by the render step, and the resize handler lets every exception other than
  \<open>ValueError\<close> through.
\<close>

theorem layout_exception_counterexample:
  "fst (snd (plot (Some ValueError) all_return plot1_window)) = Some ValueError \<and>
   fst (snd (resize (Some RuntimeError) plot1_window)) = Some RuntimeError"
  by code_simp

text \<open>
  C9, amended.  On a resize of the window, a \<open>ValueError\<close> raised by the layout
  recalculation is swallowed: the handler returns normally and leaves the window as it
  was.  An exception of any other type raised there is propagated.
\<close>

theorem resize_swallows_ValueError:
  "resize (Some ValueError) w = ([Fig_tight_layout], None, w) \<and>
   resize None w = ([Fig_tight_layout], None, w) \<and>
   fst (snd (resize lay w)) = (if lay = Some ValueError then None else lay) \<and>
   snd (snd (resize lay w)) = w"
  by (simp add: resize_def split: option.splits)

section \<open>Where the code departs from the claims\<close>

text \<open>
  C3.  Two series drawn as error bars.  With format strings \<open>['r', 'b']\<close>, both
  drawing calls get \<open>data[0,:]\<close> and \<open>data[1,:]\<close>, the whole blocks of the first and
  of the second series, instead of the \<open>x\<close> and \<open>y\<close> rows of the series being drawn.
  Without format strings, the same data is drawn series by series.
\<close>

theorem errorbar_series_data:
  "filter is_drawing
     (fst (Plot_init None all_return
        ((default_args (Some (NDArray [2, 2, 2] [1, 2, 3, 4, 5, 6, 7, 8])))
           \<lparr>a_plotType := TYPE_ERRORBAR, a_fmt := Arg_list [''r'', ''b'']\<rparr>))) =
     [Ax_errorbar (NDArray [2, 2] [1, 2, 3, 4]) (NDArray [2, 2] [5, 6, 7, 8])
        (Some ''r'') ''Series 1'' [],
      Ax_errorbar (NDArray [2, 2] [1, 2, 3, 4]) (NDArray [2, 2] [5, 6, 7, 8])
        (Some ''b'') ''Series 2'' []] \<and>
   filter is_drawing
     (fst (Plot_init None all_return
        ((default_args (Some (NDArray [2, 2, 2] [1, 2, 3, 4, 5, 6, 7, 8])))
           \<lparr>a_plotType := TYPE_ERRORBAR\<rparr>))) =
     [Ax_errorbar (NDArray [2] [1, 2]) (NDArray [2] [3, 4]) None ''Series 1'' [],
      Ax_errorbar (NDArray [2] [5, 6]) (NDArray [2] [7, 8]) None ''Series 2'' []]"
  by code_simp

text \<open>
  C4.  Three series and a list of two format strings: the list is stored although its
  length is not the number of series, where a tuple of the same length is dropped.  The
  render step of the constructor then raises \<open>IndexError\<close> at the third series.
\<close>

theorem fmt_list_length_mismatch:
  "store_fmt (Arg_list [''r'', ''b'']) [3, 2, 1] = Inr (Some (PyList [''r'', ''b''])) \<and>
   store_fmt (Arg_tuple [''r'', ''b'']) [3, 2, 1] = Inr None \<and>
   snd (Plot_init None all_return
     ((default_args (Some (NDArray [3, 2, 1] [1, 2, 3, 4, 5, 6])))
        \<lparr>a_fmt := Arg_list [''r'', ''b'']\<rparr>)) =
     (Some IndexError,
      Some \<lparr> kwargs = [], data = NDArray [3, 2, 1] [1, 2, 3, 4, 5, 6],
             fmt = Some (PyList [''r'', ''b'']),
             labels = PyList [''Series 1'', ''Series 2'', ''Series 3''],
             xlabel = Some [], ylabel = Some [], xlabelSize = 12, ylabelSize = 12,
             title = Some [], titleSize = 14, xlim = None, ylim = None,
             logX = False, logY = False, legend = False, legendLoc = 1,
             legendFontSize = 10, plotTypeVar = TYPE_PLOT, showToolbar = False,
             toolbar = False \<rparr>)"
  by code_simp

text \<open>
  When the labels are stored as a list, relabelling series \<open>i\<close> replaces the label at
  index \<open>i\<close> and no other, redraws with the new labels and, if the redraw returns,
  reconfigures entry \<open>i\<close> of the relabel menu; a cancelled dialog changes nothing.
\<close>

lemma relabel_list_labels:
  assumes "labels w = PyList ls" and "i < length ls"
  shows "relabel lay lib i None w = ([], None, w)"
    and "labels (snd (snd (relabel lay lib i (Some (txt, fs)) w))) = PyList (ls[i := txt])"
    and "fst (relabel lay lib i (Some (txt, fs)) w) =
           fst (plot lay lib (w\<lparr>labels := PyList (ls[i := txt])\<rparr>)) @
           (if fst (snd (plot lay lib (w\<lparr>labels := PyList (ls[i := txt])\<rparr>))) = None
            then [Relabel_entryconfig i txt] else [])"
    and "fst (snd (relabel lay lib i (Some (txt, fs)) w)) =
           fst (snd (plot lay lib (w\<lparr>labels := PyList (ls[i := txt])\<rparr>)))"
proof -
  show "relabel lay lib i None w = ([], None, w)"
    using assms by (simp add: relabel_def seq_get_def)
  obtain cs ex w' where p: "plot lay lib (w\<lparr>labels := PyList (ls[i := txt])\<rparr>) = (cs, ex, w')"
    by (cases "plot lay lib (w\<lparr>labels := PyList (ls[i := txt])\<rparr>)")
  have r: "relabel lay lib i (Some (txt, fs)) w =
      (case ex of Some e \<Rightarrow> (cs, Some e, w')
       | None \<Rightarrow> (cs @ [Relabel_entryconfig i txt], None, w'))"
    using assms p by (simp add: relabel_def seq_get_def split: option.splits)
  have l: "labels w' = PyList (ls[i := txt])"
    using plot_labels [of lay lib "w\<lparr>labels := PyList (ls[i := txt])\<rparr>"] p by simp
  show "labels (snd (snd (relabel lay lib i (Some (txt, fs)) w))) = PyList (ls[i := txt])"
    using l by (simp add: r split: option.splits)
  show "fst (relabel lay lib i (Some (txt, fs)) w) =
           fst (plot lay lib (w\<lparr>labels := PyList (ls[i := txt])\<rparr>)) @
           (if fst (snd (plot lay lib (w\<lparr>labels := PyList (ls[i := txt])\<rparr>))) = None
            then [Relabel_entryconfig i txt] else [])"
    by (simp add: r p split: option.splits)
  show "fst (snd (relabel lay lib i (Some (txt, fs)) w)) =
           fst (snd (plot lay lib (w\<lparr>labels := PyList (ls[i := txt])\<rparr>)))"
    by (simp add: r p split: option.splits)
qed

text \<open>
  C8.  The constructor accepts labels passed as a tuple.  Relabelling the second series
  of such a window raises \<open>TypeError\<close> at the item assignment: no label changes, no
  redraw happens and no menu entry is reconfigured.
\<close>

theorem relabel_tuple_labels:
  "snd (Plot_init None all_return tuple_args) = (None, Some tuple_window) \<and>
   relabel None all_return 1 (Some (''Shot A'', None)) tuple_window =
     ([], Some TypeError, tuple_window)"
  by code_simp

section \<open>Default labels\<close>

lemma length_default_labels: "length (default_labels n) = n"
  by (simp add: default_labels_def)

lemma nth_default_labels: "i < n \<Longrightarrow> default_labels n ! i = ''Series '' @ str_nat (i + 1)"
  by (simp add: default_labels_def)

lemma store_labels_default:
  "store_labels Arg_none sh =
     (if length sh = 2 then Inr (Some (PyList [''Series 1'']))
      else case sh of [] \<Rightarrow> Inl IndexError
                    | n # ns \<Rightarrow> Inr (Some (PyList (default_labels n))))"
  by (simp add: store_labels_def bnd_def shape_at_0_def split: list.splits)

lemma plot_relabel_entries: "relabel_entries (fst (plot lay lib w)) = []"
proof (cases "draw lib w")
  case (Pair cs ex)
  have r: "relabel_entries cs = []"
    using draw_drawing [of lib w] Pair by (simp add: drawing_relabel_entries)
  have c: "relabel_entries (limit_calls w) = []" "relabel_entries (scale_calls w) = []"
    "relabel_entries (label_calls w) = []" "relabel_entries (legend_calls w) = []"
    "relabel_entries (fst (finish lay w)) = []"
    by (auto simp: limit_calls_def scale_calls_def label_calls_def legend_calls_def finish_def
        text_call_def relabel_entries_append split: option.splits)
  show ?thesis
    using Pair r c by (cases ex) (simp_all add: plot_calls relabel_entries_append)
qed

lemma relabel_entries_map: "relabel_entries (map Relabel_add_command ls) = ls"
  by (induction ls) simp_all

lemma menubar_labels:
  "\<exists>ms. menubar sh (Some ls) = (ms, None) \<and> relabel_entries ms = items ls"
  by (auto simp: menubar_def Let_def bnd_def shape_at_0_def relabel_entries_append
      relabel_entries_map split: list.splits sum.splits)

lemma store_fmt_rank: "sh \<noteq> [] \<Longrightarrow> \<exists>f. store_fmt arg sh = Inr f"
  by (cases sh; cases arg) (simp_all add: store_fmt_def bnd_def shape_at_0_def)

lemma Plot_init_built:
  assumes "a_data a = Some d" and "store_fmt (a_fmt a) (shape d) = Inr f"
    and "store_labels (a_labels a) (shape d) = Inr (Some ls)"
    and "menubar (shape d) (Some ls) = (ms, None)"
  shows "Plot_init lay lib a =
     ([Toplevel_create, Wm_title (a_windowTitle a), Frame_pack, Figure_create, Canvas_create,
       Frame_pack] @ ms @ [Bind_events] @ fst (plot lay lib (init_fields a d f ls)),
      fst (snd (plot lay lib (init_fields a d f ls))),
      Some (snd (snd (plot lay lib (init_fields a d f ls)))))"
  using assms by (simp add: Plot_init_def Let_def split: prod.splits)

lemma init_fields_simps [simp]:
  "labels (init_fields a d f ls) = ls" "data (init_fields a d f ls) = d"
  "fmt (init_fields a d f ls) = f" "plotTypeVar (init_fields a d f ls) = a_plotType a"
  "kwargs (init_fields a d f ls) = a_kwargs a"
  by (simp_all add: init_fields_def)

lemma Plot_init_labels:
  assumes "a_data a = Some d" and "shape d \<noteq> []"
    and "store_labels (a_labels a) (shape d) = Inr (Some ls)"
  shows "relabel_entries (fst (Plot_init lay lib a)) = items ls \<and>
         (\<exists>w. snd (snd (Plot_init lay lib a)) = Some w \<and> labels w = ls)"
proof -
  obtain f where f: "store_fmt (a_fmt a) (shape d) = Inr f"
    using store_fmt_rank [OF assms(2)] by blast
  obtain ms where ms: "menubar (shape d) (Some ls) = ((ms :: ('a, 'b) call list), None)"
    "relabel_entries ms = items ls"
    using menubar_labels by blast
  show ?thesis
    by (simp add: Plot_init_built [OF assms(1) f assms(3) ms(1)] ms(2)
        relabel_entries_append plot_relabel_entries plot_labels)
qed

text \<open>
  C10.  When no labels are passed, the default labels depend on the rank of the data.
  For data of rank 2 there is the one label \<open>Series 1\<close>, and the relabel menu gets
  one entry.  For data of rank 1 and length \<open>n\<close> (the histogram case) there are \<open>n\<close>
  labels, \<open>Series 1\<close> to \<open>Series n\<close>, one per sample, and the relabel menu gets one
  entry per sample.  This holds whatever the render step at the end of the constructor
  does.
\<close>

theorem default_labels_by_rank:
  assumes "a_data a = Some d" and "a_labels a = Arg_none"
  shows "(length (shape d) = 2 \<longrightarrow>
            relabel_entries (fst (Plot_init lay lib a)) = [''Series 1''] \<and>
            (\<exists>w. snd (snd (Plot_init lay lib a)) = Some w \<and>
                 labels w = PyList [''Series 1''])) \<and>
         (\<forall>n. shape d = [n] \<longrightarrow>
            relabel_entries (fst (Plot_init lay lib a)) = default_labels n \<and>
            (\<exists>w. snd (snd (Plot_init lay lib a)) = Some w \<and>
                 labels w = PyList (default_labels n)) \<and>
            length (default_labels n) = n \<and>
            (\<forall>i<n. default_labels n ! i = ''Series '' @ str_nat (i + 1)))"
proof -
  have 2: "length (shape d) = 2 \<Longrightarrow>
      store_labels (a_labels a) (shape d) = Inr (Some (PyList [''Series 1'']))"
    using assms(2) by (simp add: store_labels_default)
  have 1: "shape d = [n] \<Longrightarrow>
      store_labels (a_labels a) (shape d) = Inr (Some (PyList (default_labels n)))" for n
    using assms(2) by (simp add: store_labels_default)
  have A: "relabel_entries (fst (Plot_init lay lib a)) = [''Series 1''] \<and>
      (\<exists>w. snd (snd (Plot_init lay lib a)) = Some w \<and> labels w = PyList [''Series 1''])"
    if r: "length (shape d) = 2"
  proof -
    have ne: "shape d \<noteq> []" using r by auto
    show ?thesis
      using Plot_init_labels [OF assms(1) ne 2 [OF r], of lay lib] by simp
  qed
  have B: "relabel_entries (fst (Plot_init lay lib a)) = default_labels n \<and>
      (\<exists>w. snd (snd (Plot_init lay lib a)) = Some w \<and> labels w = PyList (default_labels n))"
    if r: "shape d = [n]" for n
  proof -
    have ne: "shape d \<noteq> []" using r by auto
    show ?thesis
      using Plot_init_labels [OF assms(1) ne 1 [OF r], of lay lib] by simp
  qed
  show ?thesis
    using A B by (simp add: length_default_labels nth_default_labels)
qed

text \<open>
  The two windows of \<open>test.py\<close>: one entry for the data of rank 2, eighteen entries
  for the eighteen samples of the histogram.
\<close>

theorem default_labels_by_rank_witness:
  "relabel_entries (fst (Plot_init None all_return plot1_args)) = [''Series 1''] \<and>
   relabel_entries (fst (Plot_init None all_return plot2_args)) =
     [''Series 1'', ''Series 2'', ''Series 3'', ''Series 4'', ''Series 5'', ''Series 6'',
      ''Series 7'', ''Series 8'', ''Series 9'', ''Series 10'', ''Series 11'', ''Series 12'',
      ''Series 13'', ''Series 14'', ''Series 15'', ''Series 16'', ''Series 17'', ''Series 18'']"
proof -
  have d: "default_labels 18 =
     [''Series 1'', ''Series 2'', ''Series 3'', ''Series 4'', ''Series 5'', ''Series 6'',
      ''Series 7'', ''Series 8'', ''Series 9'', ''Series 10'', ''Series 11'', ''Series 12'',
      ''Series 13'', ''Series 14'', ''Series 15'', ''Series 16'', ''Series 17'', ''Series 18'']"
    by code_simp
  have a1: "a_data plot1_args = Some (NDArray [2, 3] [1, 2, 3, 1, 2, 3])"
    "a_labels plot1_args = Arg_none"
    by (simp_all add: plot1_args_def default_args_def)
  have a2: "a_data plot2_args =
      Some (NDArray [18] [1, 2, 3, 2, 2, 2, 1, 1, 1, 1, 2, 3, 2, 2, 2, 2, 2, 1])"
    "a_labels plot2_args = Arg_none"
    by (simp_all add: plot2_args_def default_args_def)
  show ?thesis
    using default_labels_by_rank [OF a1, of None all_return]
      default_labels_by_rank [OF a2, of None all_return] d
    by simp
qed

section \<open>Construction\<close>

lemma Plot_init_window: "Toplevel_create \<in> set (fst (Plot_init lay lib a))"
  by (simp add: Plot_init_def Let_def split: option.splits sum.splits prod.splits)

lemma Plot_init_not_array:
  "a_data a = None \<Longrightarrow>
   Plot_init lay lib a =
     ([Toplevel_create, Wm_title (a_windowTitle a)], Some AssertionError, None)"
  by (simp add: Plot_init_def)

lemma store_fmt_raises: "store_fmt arg sh = Inl e \<Longrightarrow> e = IndexError \<and> sh = []"
  by (cases arg; cases sh) (simp_all add: store_fmt_def bnd_def shape_at_0_def split: if_splits)

lemma store_labels_raises: "store_labels arg sh = Inl e \<Longrightarrow> e = IndexError \<and> sh = []"
  by (cases arg; cases sh)
    (simp_all add: store_labels_def bnd_def shape_at_0_def split: if_splits)

lemma store_labels_unset: "store_labels arg sh = Inr None \<Longrightarrow> arg = Arg_other"
  by (cases arg; cases sh)
    (simp_all add: store_labels_def bnd_def shape_at_0_def split: if_splits)

lemma store_labels_other: "store_labels Arg_other sh = Inr None"
  by (simp add: store_labels_def bnd_def)

lemma menubar_unset: "snd (menubar sh None) = Some AttributeError"
  by (cases sh) (simp_all add: menubar_def Let_def bnd_def shape_at_0_def)

lemma draw_line_bad_shape:
  assumes "plotTypeVar w = TYPE_PLOT"
    and "length (shape (data w)) < 2 \<or> shape (data w) ! (length (shape (data w)) - 2) \<noteq> 2"
  shows "snd (draw lib w) =
         Some (if length (shape (data w)) < 2 then IndexError else AssertionError)"
  using assms by (auto simp: draw_def draw_xy_def shape_at_m2_def Let_def)

lemma Plot_init_line_bad_shape:
  assumes d: "a_data a = Some d" and t: "a_plotType a = TYPE_PLOT"
    and b: "length (shape d) < 2 \<or> shape d ! (length (shape d) - 2) \<noteq> 2"
    and l: "a_labels a \<noteq> Arg_other"
  shows "fst (snd (Plot_init lay lib a)) =
         Some (if length (shape d) < 2 then IndexError else AssertionError)"
proof (cases "store_fmt (a_fmt a) (shape d)")
  case (Inl e)
  then show ?thesis
    using d store_fmt_raises [OF Inl] by (simp add: Plot_init_def)
next
  case (Inr f)
  show ?thesis
  proof (cases "store_labels (a_labels a) (shape d)")
    case (Inl e)
    then show ?thesis
      using d Inr store_labels_raises [OF Inl] by (simp add: Plot_init_def)
  next
    case r: (Inr lo)
    then obtain ls where lo: "lo = Some ls"
      using store_labels_unset [of "a_labels a" "shape d"] l by (cases lo) auto
    obtain ms where ms: "menubar (shape d) (Some ls) = ((ms :: ('a, 'b) call list), None)"
      using menubar_labels by blast
    have "snd (draw lib (init_fields a d f ls)) =
        Some (if length (shape d) < 2 then IndexError else AssertionError)"
      using draw_line_bad_shape [of "init_fields a d f ls" lib] t b by simp
    then show ?thesis
      using Plot_init_built [OF d Inr _ ms, of lay lib] r lo by (simp add: plot_exn)
  qed
qed

lemma Plot_init_labels_unset:
  assumes d: "a_data a = Some d" and l: "a_labels a = Arg_other"
  shows "fst (snd (Plot_init lay lib a)) = Some AttributeError \<or>
         fst (snd (Plot_init lay lib a)) = Some IndexError"
proof (cases "store_fmt (a_fmt a) (shape d)")
  case (Inl e)
  then show ?thesis
    using d store_fmt_raises [OF Inl] by (simp add: Plot_init_def)
next
  case (Inr f)
  obtain ms e where m: "menubar (shape d) None = ((ms :: ('a, 'b) call list), e)"
    by (cases "menubar (shape d) None :: ('a, 'b) call list \<times> exn option")
  then have "e = Some AttributeError"
    using menubar_unset [of "shape d"] by (metis snd_conv)
  then show ?thesis
    using d l Inr m by (simp add: Plot_init_def store_labels_other)
qed

lemma draw_loop_ok:
  "(snd (draw_loop all_return f is) = None) = (\<forall>i\<in>set is. \<exists>c. f i = Inr c)"
  by (induction "is") (auto simp: all_return_def split: sum.splits prod.splits)

lemma plot_single_default:
  assumes "fmt w = None" and "shape (data w) = [2, m]" and "items (labels w) \<noteq> []"
    and "''label'' \<notin> set (map fst (kwargs w))"
  shows "\<exists>c. plot_single w = Inr c"
  using assms by (simp add: plot_single_def bnd_def nd_index_def seq_get_def call_kw_def)

lemma plot_series_default:
  assumes "fmt w = None" and "shape (data w) = n # b # c # rest" and "i < n"
    and "length (items (labels w)) = n"
    and "''label'' \<notin> set (map fst (kwargs w))"
  shows "(\<exists>c. plot_series w i = Inr c) = (2 \<le> b)"
  using assms by (auto simp: plot_series_def bnd_def nd_index_def seq_get_def call_kw_def)

lemma draw_line_default:
  assumes t: "plotTypeVar w = TYPE_PLOT" and f: "fmt w = None"
    and l: "store_labels Arg_none (shape (data w)) = Inr (Some (labels w))"
    and k: "''label'' \<notin> set (map fst (kwargs w))"
  shows "(snd (draw all_return w) = None) =
         (2 \<le> length (shape (data w)) \<and>
          shape (data w) ! (length (shape (data w)) - 2) = 2 \<and>
          (4 \<le> length (shape (data w)) \<longrightarrow>
             shape (data w) ! 0 = 0 \<or> 2 \<le> shape (data w) ! 1))"
proof (cases "shape (data w)")
  case Nil
  then show ?thesis
    using l by (simp add: store_labels_default)
next
  case (Cons a r1)
  note sh1 = Cons
  show ?thesis
  proof (cases r1)
    case Nil
    then show ?thesis
      using sh1 t by (simp add: draw_def draw_xy_def shape_at_m2_def Let_def)
  next
    case (Cons b r2)
    note sh2 = Cons
    show ?thesis
    proof (cases r2)
      case Nil
      have "labels w = PyList [''Series 1'']"
        using l [symmetric] sh1 sh2 Nil by (simp add: store_labels_default)
      then have "\<exists>c. plot_single w = Inr c" if "a = 2"
        using plot_single_default [of w b] f k sh1 sh2 Nil that by simp
      then show ?thesis
        using sh1 sh2 Nil t
        by (auto simp: draw_def draw_xy_def shape_at_m2_def draw_one_def all_return_def
            Let_def split: if_splits)
    next
      case (Cons c r3)
      have lab: "length (items (labels w)) = a"
        using l [symmetric] sh1 sh2 Cons
        by (simp add: store_labels_default length_default_labels)
      have ser: "(\<exists>x. plot_series w i = Inr x) = (2 \<le> b)" if "i < a" for i
        using plot_series_default [OF f _ that lab k] sh1 sh2 Cons by simp
      have loop: "(snd (range_loop all_return (plot_series w) (shape (data w))) = None) =
          (a = 0 \<or> 2 \<le> b)"
        using ser sh1 by (auto simp: range_loop_def shape_at_0_def draw_loop_ok)
      show ?thesis
      proof (cases r3)
        case Nil
        then show ?thesis
          using loop sh1 sh2 Cons t
          by (auto simp: draw_def draw_xy_def shape_at_m2_def Let_def split: if_splits)
      next
        case (Cons e r4)
        then show ?thesis
          using loop sh1 sh2 \<open>r2 = c # r3\<close> t
          by (auto simp: draw_def draw_xy_def shape_at_m2_def Let_def split: if_splits)
      qed
    qed
  qed
qed

lemma store_fmt_none: "store_fmt Arg_none sh = Inr None"
  by (simp add: store_fmt_def)

lemma Plot_init_line_default:
  assumes d: "a_data a = Some d" and t: "a_plotType a = TYPE_PLOT"
    and f: "a_fmt a = Arg_none" and l: "a_labels a = Arg_none"
    and k: "''label'' \<notin> set (map fst (a_kwargs a))"
  shows "(fst (snd (Plot_init None all_return a)) = None) =
         (2 \<le> length (shape d) \<and> shape d ! (length (shape d) - 2) = 2 \<and>
          (4 \<le> length (shape d) \<longrightarrow> shape d ! 0 = 0 \<or> 2 \<le> shape d ! 1))"
    and "fst (snd (Plot_init None all_return a)) = None \<Longrightarrow>
         snd (snd (Plot_init None all_return a)) \<noteq> None"
proof -
  show "(fst (snd (Plot_init None all_return a)) = None) =
         (2 \<le> length (shape d) \<and> shape d ! (length (shape d) - 2) = 2 \<and>
          (4 \<le> length (shape d) \<longrightarrow> shape d ! 0 = 0 \<or> 2 \<le> shape d ! 1))"
  proof (cases "shape d")
    case Nil
    then show ?thesis
      using d l by (simp add: Plot_init_def store_fmt_none f store_labels_default)
  next
    case (Cons n ns)
    then have "\<exists>ls. store_labels Arg_none (shape d) = Inr (Some ls)"
      by (simp add: store_labels_default)
    then obtain ls where ls: "store_labels Arg_none (shape d) = Inr (Some ls)" ..
    obtain ms where ms: "menubar (shape d) (Some ls) = ((ms :: ('a, 'b) call list), None)"
      using menubar_labels by blast
    have b: "fst (snd (Plot_init None all_return a)) =
        fst (snd (plot None all_return (init_fields a d None ls)))"
      using Plot_init_built [OF d _ _ ms, of None None all_return] f l ls
      by (simp add: store_fmt_none)
    have c: "(snd (draw all_return (init_fields a d None ls)) = None) =
         (2 \<le> length (shape d) \<and> shape d ! (length (shape d) - 2) = 2 \<and>
          (4 \<le> length (shape d) \<longrightarrow> shape d ! 0 = 0 \<or> 2 \<le> shape d ! 1))"
      using draw_line_default [of "init_fields a d None ls"] t ls k by simp
    have e: "(fst (snd (plot None all_return (init_fields a d None ls))) = None) =
        (snd (draw all_return (init_fields a d None ls)) = None)"
      by (simp add: plot_exn split: option.splits)
    show ?thesis
      by (simp only: b e c)
  qed
  show "fst (snd (Plot_init None all_return a)) = None \<Longrightarrow>
      snd (snd (Plot_init None all_return a)) \<noteq> None"
    by (auto simp: Plot_init_def Let_def split: option.splits sum.splits prod.splits)
qed

text \<open>
  C5, as stated, fails.  For data that is not an array the top-level window has been
  created and titled when the assertion fails.  For data of rank 1 and the line plot the
  exception comes from the render step, after the window, the canvas and the menus have
  been set up.  Data of shape \<open>(1, 1, 2, 1)\<close>, whose second-to-last dimension has size
  2, is rejected with \<open>IndexError\<close>.  And the data of the first window of \<open>test.py\<close>
  is rejected with \<open>TypeError\<close> when a \<open>label\<close> is passed among the keyword arguments.
\<close>

theorem construction_counterexample:
  "fst (Plot_init None all_return (default_args None)) =
     [Toplevel_create, Wm_title ''mplWindow''] \<and>
   fst (snd (Plot_init None all_return (default_args None))) = Some AssertionError \<and>
   Toplevel_create
     \<in> set (fst (Plot_init None all_return (default_args (Some (NDArray [3] [1, 2, 3]))))) \<and>
   Canvas_create
     \<in> set (fst (Plot_init None all_return (default_args (Some (NDArray [3] [1, 2, 3]))))) \<and>
   fst (snd (Plot_init None all_return (default_args (Some (NDArray [3] [1, 2, 3]))))) =
     Some IndexError \<and>
   fst (snd (Plot_init None all_return (default_args (Some (NDArray [1, 1, 2, 1] [1, 2]))))) =
     Some IndexError \<and>
   fst (snd (Plot_init None all_return (plot1_args\<lparr>a_kwargs := [(''label'', ())]\<rparr>))) =
     Some TypeError"
  by code_simp

text \<open>
  C5, amended.  Construction raises \<open>AssertionError\<close> when the data is not an array.
  For the line plot it raises whenever the data has rank below 2 or its second-to-last
  dimension does not have size 2: \<open>IndexError\<close> for rank below 2 and \<open>AssertionError\<close>
  otherwise, unless the labels are of no accepted type, which always raises
  \<open>AttributeError\<close> or \<open>IndexError\<close>.  In every case the top-level window has been
  created by then.  With the default labels and format strings, no \<open>label\<close> among the
  keyword arguments, and library calls that return, construction for the line plot
  succeeds exactly when the rank is at least 2, the second-to-last dimension has size 2
  and, for rank 4 or more, the first dimension is 0 or the second is at least 2; it then
  yields the window.
\<close>

theorem construction_outcome:
  "(a_data a = None \<longrightarrow>
      Plot_init lay lib a =
        ([Toplevel_create, Wm_title (a_windowTitle a)], Some AssertionError, None)) \<and>
   Toplevel_create \<in> set (fst (Plot_init lay lib a)) \<and>
   (\<forall>d. a_data a = Some d \<and> a_plotType a = TYPE_PLOT \<and> a_labels a \<noteq> Arg_other \<and>
        (length (shape d) < 2 \<or> shape d ! (length (shape d) - 2) \<noteq> 2) \<longrightarrow>
        fst (snd (Plot_init lay lib a)) =
          Some (if length (shape d) < 2 then IndexError else AssertionError)) \<and>
   (\<forall>d. a_data a = Some d \<and> a_labels a = Arg_other \<longrightarrow>
        fst (snd (Plot_init lay lib a)) = Some AttributeError \<or>
        fst (snd (Plot_init lay lib a)) = Some IndexError) \<and>
   (\<forall>d. a_data a = Some d \<and> a_plotType a = TYPE_PLOT \<and> a_fmt a = Arg_none \<and>
        a_labels a = Arg_none \<and> ''label'' \<notin> set (map fst (a_kwargs a)) \<longrightarrow>
        (fst (snd (Plot_init None all_return a)) = None) =
          (2 \<le> length (shape d) \<and> shape d ! (length (shape d) - 2) = 2 \<and>
           (4 \<le> length (shape d) \<longrightarrow> shape d ! 0 = 0 \<or> 2 \<le> shape d ! 1)) \<and>
        (fst (snd (Plot_init None all_return a)) = None \<longrightarrow>
           snd (snd (Plot_init None all_return a)) \<noteq> None))"
  using Plot_init_not_array [of a lay lib] Plot_init_window [of lay lib a]
    Plot_init_line_bad_shape [of a _ lay lib] Plot_init_labels_unset [of a _ lay lib]
    Plot_init_line_default [of a]
  by blast

text \<open>
  No array, an array of rank 1, an array of shape \<open>(3, 2)\<close>, labels that are a number,
  and the first window of \<open>test.py\<close>.
\<close>

theorem construction_outcome_witness:
  "Plot_init None all_return (default_args None) =
     ([Toplevel_create, Wm_title ''mplWindow''], Some AssertionError, None) \<and>
   fst (snd (Plot_init None all_return (default_args (Some (NDArray [3] [1, 2, 3]))))) =
     Some IndexError \<and>
   fst (snd (Plot_init None all_return
              (default_args (Some (NDArray [3, 2] [1, 2, 3, 4, 5, 6]))))) =
     Some AssertionError \<and>
   fst (snd (Plot_init None all_return (plot1_args\<lparr>a_labels := Arg_other\<rparr>))) =
     Some AttributeError \<and>
   fst (snd (Plot_init None all_return plot1_args)) = None \<and>
   snd (snd (Plot_init None all_return plot1_args)) \<noteq> None"
proof -
  have o: "fst (snd (Plot_init None all_return (plot1_args\<lparr>a_labels := Arg_other\<rparr>))) \<noteq>
      Some IndexError"
    by code_simp
  show ?thesis
    using construction_outcome [of "default_args None" None all_return]
      construction_outcome [of "default_args (Some (NDArray [3] [1, 2, 3]))" None all_return]
      construction_outcome [of "default_args (Some (NDArray [3, 2] [1, 2, 3, 4, 5, 6]))"
        None all_return]
      construction_outcome [of "plot1_args\<lparr>a_labels := Arg_other\<rparr>" None all_return]
      construction_outcome [of plot1_args None all_return] o
    by (simp add: default_args_def plot1_args_def)
qed

end
